theory Spec2Isabelle
  imports Main
begin

section \<open>The browser objects the controller talks to\<close>

text \<open>
  The program is one class, \<open>WebTerminal\<close> (\<open>static/app.js\<close>; the second source file,
  \<open>unnamed/part_000\<close>, is an older copy of the same class). Everything the class does is
  an effect on an object of the browser: the xterm.js \<open>Terminal\<close>, a \<open>WebSocket\<close>, the
  DOM, the console, \<open>localStorage\<close> and the timer queue. The model keeps each of those
  objects as data and passes one \<open>state\<close> through every method.

  The source has no \<open>throw\<close>; what can go wrong is a \<open>TypeError\<close> of the language (a
  property read on \<open>null\<close>, or a call of something that is not a function) and the
  \<open>Error\<close> xterm.js throws when \<open>open\<close> is given no parent element. A method is
  therefore an \<open>action\<close>, which returns the error it threw, if any, together with the
  state it left behind (the effects made before a throw stay).

  Failures of the host interfaces themselves are outside the model: the page is served
  over http(s), so the URL given to \<open>new WebSocket\<close> is well formed, and \<open>localStorage\<close>
  is readable and writable.
\<close>

datatype js_error = TypeError | Error

text \<open>A JavaScript value as far as colours and JSON fields need it.\<close>

datatype jsval = Undefined | Str string

text \<open>What a template literal or \<open>String(v)\<close> makes of a value.\<close>

fun to_string :: "jsval \<Rightarrow> string" where
  "to_string Undefined = ''undefined''"
| "to_string (Str v) = v"

text \<open>\<open>WebSocket.readyState\<close>: the four constants of the interface.\<close>

datatype ready_state = CONNECTING | OPEN | CLOSING | CLOSED

text \<open>
  The two source files assign different closures to \<open>onopen\<close> and \<open>onclose\<close> of a new
  socket; a socket remembers whose handlers it carries.
\<close>

datatype script = Static_app_js | Part_000

text \<open>
  A \<open>WebSocket\<close> object: its URL, its ready state, the messages handed to \<open>send\<close> in
  order, whether the page called \<open>close()\<close> on it, and its four handlers.
\<close>

record websocket_obj =
  url :: string
  readyState :: ready_state
  sent :: "string list"
  close_called :: bool
  handlers :: script

text \<open>A message of the socket: a text frame, or a binary one (a \<open>Blob\<close>).\<close>

datatype ws_data = Text string | Binary

text \<open>The closures the program registers as event listeners and timer callbacks.\<close>

datatype listener =
    DataListener
  | ResizeListener
  | BeforeUnloadListener
  | CloseClickListener
  | MinimizeClickListener
  | MaximizeClickListener
  | KeydownListener
  | ThemeClickListener
  | ReconnectClickListener

datatype timer_callback =
    FitCallback
  | UnscaleCallback
  | FocusCallback
  | ReconnectCallback

text \<open>The calls made on the xterm.js terminal, in order.\<close>

datatype term_call =
    LoadAddon
  | OpenIn
  | Write string
  | Writeln string
  | Clear
  | Focus

text \<open>
  The \<open>Terminal\<close> object: the options it was constructed with, the listeners given to
  \<open>onData\<close>, and the calls made on it. \<open>theme\<close> is \<open>terminal.options.theme\<close>, an object
  read as a map from property names to values.
\<close>

record terminal_obj =
  cursorBlink :: bool
  theme :: "string \<rightharpoonup> jsval"
  fontSize :: nat
  fontFamily :: string
  cols :: nat
  rows :: nat
  data_listeners :: "listener list"
  calls :: "term_call list"

text \<open>The status badge: its class list and its markup.\<close>

record badge_el =
  classList :: "string list"
  innerHTML :: string

text \<open>
  The parsed body of \<open>/api/shell-info\<close>. \<open>JNull\<close> is JSON \<open>null\<close>; every other value
  is read through the three properties the program touches: \<open>shell\<close> and
  \<open>full_command\<close> (absent: \<open>Undefined\<close>) and \<open>args\<close>, which is the list of its
  elements, each as \<open>join\<close> prints it, when it is an array and \<open>None\<close> when it is
  anything else (then \<open>shellInfo.args.join\<close> is a \<open>TypeError\<close>).
\<close>

datatype json_value =
    JNull
  | JObject (shell: jsval) (args: "string list option") (full_command: jsval)

text \<open>How the request of \<open>fetchShellInfo\<close> ends.\<close>

datatype fetch_outcome = FetchRejected | JsonRejected | Parsed json_value

datatype log_entry =
    ConsoleLog string
  | ConsoleError string
  | Uncaught js_error

text \<open>Events on which a listener called \<open>preventDefault()\<close>.\<close>

datatype dom_event = KeydownEvent bool string | ClickEvent

text \<open>
  The state: the fields of the \<open>WebTerminal\<close> instance first, then the browser. An
  element the program looks up is \<open>None\<close> when the page does not have it. \<open>websocket\<close>
  is a reference into \<open>sockets\<close>, every \<open>WebSocket\<close> constructed so far: a socket the
  instance no longer points to still exists and still delivers its events.
\<close>

record state =
  terminal :: "terminal_obj option"
  websocket :: "nat option"
  fitAddon :: "nat option"
  currentLine :: string
  connected :: bool
  shellInfo :: "json_value option"
  sockets :: "websocket_obj list"
  location_protocol :: string
  location_host :: string
  terminal_element :: bool
  header_title :: "string option"
  shell_info_element :: "string option"
  badge :: "badge_el option"
  close_button :: "listener list option"
  minimize_button :: "listener list option"
  maximize_button :: "listener list option"
  container :: "string option"
  fullscreen_requests :: nat
  window_closed :: bool
  theme_controllers :: "(string option \<times> listener list) list"
  data_theme :: "string option"
  reconnect_modal :: "bool option"
  reconnect_btn :: "listener list option"
  resize_listeners :: "listener list"
  beforeunload_listeners :: "listener list"
  keydown_listeners :: "listener list"
  localStorage :: "string \<rightharpoonup> string"
  console :: "log_entry list"
  default_prevented :: "dom_event list"
  timers :: "(nat \<times> timer_callback) list"

type_synonym action = "state \<Rightarrow> js_error option \<times> state"

text \<open>A statement list: the statements run in order, and a throw ends the list.\<close>

fun block :: "action list \<Rightarrow> action" where
  "block [] s = (None, s)"
| "block (a # as) s =
     (case a s of
        (None, s') \<Rightarrow> block as s'
      | (Some e, s') \<Rightarrow> (Some e, s'))"

subsection \<open>Calls on the collaborators\<close>

text \<open>\<open>this.terminal.m(...)\<close>: a \<open>TypeError\<close> while \<open>this.terminal\<close> is \<open>null\<close>.\<close>

definition terminal_call :: "term_call \<Rightarrow> action" where
  "terminal_call c s =
     (case terminal s of
        None \<Rightarrow> (Some TypeError, s)
      | Some t \<Rightarrow> (None, s\<lparr>terminal := Some (t\<lparr>calls := calls t @ [c]\<rparr>)\<rparr>))"

definition console_log :: "string \<Rightarrow> action" where
  "console_log m s = (None, s\<lparr>console := console s @ [ConsoleLog m]\<rparr>)"

definition console_error :: "string \<Rightarrow> action" where
  "console_error m s = (None, s\<lparr>console := console s @ [ConsoleError m]\<rparr>)"

definition setTimeout :: "timer_callback \<Rightarrow> nat \<Rightarrow> action" where
  "setTimeout cb ms s = (None, s\<lparr>timers := timers s @ [(ms, cb)]\<rparr>)"

definition preventDefault :: "dom_event \<Rightarrow> action" where
  "preventDefault e s = (None, s\<lparr>default_prevented := default_prevented s @ [e]\<rparr>)"

text \<open>\<open>DOMTokenList.add\<close> and \<open>remove\<close>: a class is listed once.\<close>

definition classList_add :: "string \<Rightarrow> string list \<Rightarrow> string list" where
  "classList_add c cs = (if c \<in> set cs then cs else cs @ [c])"

definition classList_remove :: "string \<Rightarrow> string list \<Rightarrow> string list" where
  "classList_remove c cs = removeAll c cs"

text \<open>
  \<open>this.websocket && this.websocket.readyState === WebSocket.OPEN\<close>, the test before
  every \<open>send\<close>. A reference always points to an object; the bound check only makes the
  function total on states that no run produces.
\<close>

definition websocket_is_open :: "state \<Rightarrow> bool" where
  "websocket_is_open s =
     (case websocket s of
        None \<Rightarrow> False
      | Some i \<Rightarrow> i < length (sockets s) \<and> readyState (sockets s ! i) = OPEN)"

text \<open>\<open>this.websocket.send(data)\<close> on an open socket.\<close>

definition websocket_send :: "string \<Rightarrow> state \<Rightarrow> state" where
  "websocket_send data s =
     (case websocket s of
        None \<Rightarrow> s
      | Some i \<Rightarrow>
          s\<lparr>sockets := (sockets s)[i := (sockets s ! i)\<lparr>sent := sent (sockets s ! i) @ [data]\<rparr>]\<rparr>)"

text \<open>
  \<open>websocket.close()\<close>: the socket starts closing unless it is closed already.
\<close>

definition websocket_close :: "nat \<Rightarrow> state \<Rightarrow> state" where
  "websocket_close i s =
     (if i < length (sockets s)
      then s\<lparr>sockets := (sockets s)[i := (sockets s ! i)
             \<lparr>readyState := (if readyState (sockets s ! i) = CLOSED then CLOSED else CLOSING),
              close_called := True\<rparr>]\<rparr>
      else s)"

section \<open>The methods of \<open>WebTerminal\<close> (\<open>static/app.js\<close>)\<close>

text \<open>
  The constructor sets five fields and calls \<open>init\<close>, which stops at its first \<open>await\<close>;
  \<open>shellInfo\<close> is not assigned yet.
\<close>

definition constructor :: "state \<Rightarrow> state" where
  "constructor s =
     s\<lparr>terminal := None, websocket := None, fitAddon := None, currentLine := [],
       connected := False\<rparr>"

subsection \<open>\<open>setupTerminal\<close>\<close>

text \<open>The theme object given to \<open>new Terminal\<close>: twenty properties.\<close>

definition initial_theme :: "(string \<times> jsval) list" where
  "initial_theme =
     [(''background'', Str ''#1e1e1e''),
      (''foreground'', Str ''#ffffff''),
      (''cursor'', Str ''#ffffff''),
      (''selection'', Str ''rgba(255, 255, 255, 0.3)''),
      (''black'', Str ''#000000''),
      (''red'', Str ''#cd3131''),
      (''green'', Str ''#0dbc79''),
      (''yellow'', Str ''#e5e510''),
      (''blue'', Str ''#2472c8''),
      (''magenta'', Str ''#bc3fbc''),
      (''cyan'', Str ''#11a8cd''),
      (''white'', Str ''#e5e5e5''),
      (''brightBlack'', Str ''#666666''),
      (''brightRed'', Str ''#f14c4c''),
      (''brightGreen'', Str ''#23d18b''),
      (''brightYellow'', Str ''#f5f543''),
      (''brightBlue'', Str ''#3b8eea''),
      (''brightMagenta'', Str ''#d670d6''),
      (''brightCyan'', Str ''#29b8db''),
      (''brightWhite'', Str ''#e5e5e5'')]"

definition new_Terminal :: terminal_obj where
  "new_Terminal =
     \<lparr>cursorBlink = True,
      theme = map_of initial_theme,
      fontSize = 14,
      fontFamily = ''\"Fira Code\", \"Cascadia Code\", \"Menlo\", \"Monaco\", monospace'',
      cols = 80,
      rows = 24,
      data_listeners = [],
      calls = []\<rparr>"

text \<open>\<open>this.terminal.onData(listener)\<close>.\<close>

definition terminal_onData :: "listener \<Rightarrow> action" where
  "terminal_onData l s =
     (case terminal s of
        None \<Rightarrow> (Some TypeError, s)
      | Some t \<Rightarrow> (None, s\<lparr>terminal := Some (t\<lparr>data_listeners := data_listeners t @ [l]\<rparr>)\<rparr>))"

text \<open>
  \<open>setupTerminal\<close>. \<open>document.getElementById('terminal')\<close> is \<open>null\<close> on a page
  without that element, and \<open>terminal.open(null)\<close> throws (xterm.js: \<open>Terminal requires
  a parent element.\<close>); the rest of the method, and of \<open>init\<close>, does not run then.
\<close>

definition setupTerminal :: action where
  "setupTerminal =
     block
       [\<lambda>s. (None, s\<lparr>terminal := Some new_Terminal\<rparr>),
        \<lambda>s. (None, s\<lparr>fitAddon := Some 0\<rparr>),
        terminal_call LoadAddon,
        \<lambda>s. if terminal_element s then terminal_call OpenIn s else (Some Error, s),
        setTimeout FitCallback 100,
        terminal_onData DataListener,
        terminal_call (Writeln ''Welcome to Web Terminal''),
        terminal_call (Writeln ''Connecting to server...'')]"

text \<open>The listener given to \<open>onData\<close> (lines 62 to 66).\<close>

definition onData :: "string \<Rightarrow> action" where
  "onData data s =
     (if websocket_is_open s then (None, websocket_send data s) else (None, s))"

subsection \<open>\<open>updateConnectionStatus\<close>\<close>

definition updateConnectionStatus :: action where
  "updateConnectionStatus s =
     (if connected s
      then (case badge s of
              None \<Rightarrow> (None, s)
            | Some b \<Rightarrow>
                (None, s\<lparr>badge := Some
                   \<lparr>classList =
                      classList_add ''badge-success'' (classList_remove ''badge-error'' (classList b)),
                    innerHTML =
                      ''<div class=\"w-2 h-2 rounded-full bg-success animate-pulse\"></div>Connected''\<rparr>\<rparr>))
      else (case badge s of
              None \<Rightarrow> (None, s)
            | Some b \<Rightarrow>
                (None, s\<lparr>badge := Some
                   \<lparr>classList =
                      classList_add ''badge-error'' (classList_remove ''badge-success'' (classList b)),
                    innerHTML =
                      ''<div class=\"w-2 h-2 rounded-full bg-error\"></div>Disconnected''\<rparr>\<rparr>)))"

subsection \<open>\<open>connectWebSocket\<close> and the four handlers\<close>

definition wsUrl :: "state \<Rightarrow> string" where
  "wsUrl s =
     (if location_protocol s = ''https:'' then ''wss:'' else ''ws:'')
       @ ''//'' @ location_host s @ ''/ws''"

text \<open>
  \<open>this.websocket = new WebSocket(wsUrl)\<close> and the four assignments of handlers. The
  socket the field pointed to before is neither closed nor touched.
\<close>

definition connectWebSocket :: action where
  "connectWebSocket s =
     (None,
      s\<lparr>sockets := sockets s @
           [\<lparr>url = wsUrl s, readyState = CONNECTING, sent = [], close_called = False,
             handlers = Static_app_js\<rparr>],
        websocket := Some (length (sockets s))\<rparr>)"

definition onopen :: action where
  "onopen =
     block
       [terminal_call Clear,
        terminal_call (Writeln ''Connected to terminal server''),
        \<lambda>s. (None, s\<lparr>connected := True\<rparr>),
        updateConnectionStatus,
        console_log ''WebSocket connected'']"

text \<open>
  \<open>str.replace(/c/g, r)\<close> for a pattern of one character: the scan copies the
  characters up to each match and puts \<open>r\<close> for the match.
\<close>

fun replace_global :: "char \<Rightarrow> string \<Rightarrow> string \<Rightarrow> string" where
  "replace_global c r [] = []"
| "replace_global c r (x # xs) =
     (if x = c then r @ replace_global c r xs else x # replace_global c r xs)"

text \<open>
  \<open>onmessage\<close>: \<open>event.data\<close> of a text frame is a string; that of a binary frame is a
  \<open>Blob\<close>, which has no \<open>replace\<close>.
\<close>

definition onmessage :: "ws_data \<Rightarrow> action" where
  "onmessage d s =
     (case d of
        Binary \<Rightarrow> (Some TypeError, s)
      | Text data \<Rightarrow>
          terminal_call (Write (replace_global (CHR 0x0A) [CHR 0x0D, CHR 0x0A] data)) s)"

subsection \<open>\<open>showReconnectDialog\<close>\<close>

text \<open>
  \<open>cloneNode(true)\<close> copies the button without the listeners that \<open>addEventListener\<close>
  gave it, and \<open>replaceChild\<close> puts the copy in the button's place: the button of the
  page is then one with no listener, to which one is added. \<open>showModal()\<close> on a dialog
  that is open as a modal already returns at once.
\<close>

definition showReconnectDialog :: action where
  "showReconnectDialog =
     block
       [\<lambda>s. (case reconnect_btn s of
                None \<Rightarrow> (Some TypeError, s)
              | Some ls \<Rightarrow> (None, s\<lparr>reconnect_btn := Some []\<rparr>)),
        \<lambda>s. (case reconnect_btn s of
                None \<Rightarrow> (Some TypeError, s)
              | Some ls \<Rightarrow> (None, s\<lparr>reconnect_btn := Some (ls @ [ReconnectClickListener])\<rparr>)),
        \<lambda>s. (case reconnect_modal s of
                None \<Rightarrow> (Some TypeError, s)
              | Some b \<Rightarrow> (None, s\<lparr>reconnect_modal := Some True\<rparr>))]"

text \<open>The click listener of the reconnect button (lines 268 to 272).\<close>

definition reconnect_click :: action where
  "reconnect_click =
     block
       [\<lambda>s. (case reconnect_modal s of
                None \<Rightarrow> (Some TypeError, s)
              | Some b \<Rightarrow> (None, s\<lparr>reconnect_modal := Some False\<rparr>)),
        terminal_call (Writeln ''Attempting to reconnect...''),
        connectWebSocket]"

definition onclose :: action where
  "onclose =
     block
       [terminal_call (Writeln ([CHR 0x0D, CHR 0x0A, CHR 0x0A] @ ''Connection closed.'')),
        \<lambda>s. (None, s\<lparr>connected := False\<rparr>),
        updateConnectionStatus,
        console_log ''WebSocket closed'',
        showReconnectDialog]"

definition onerror :: action where
  "onerror =
     block
       [terminal_call (Writeln ([CHR 0x0D, CHR 0x0A, CHR 0x0A] @ ''Connection error occurred'')),
        console_error ''WebSocket error:'']"

subsection \<open>\<open>fetchShellInfo\<close>\<close>

text \<open>\<open>Array.prototype.join\<close>.\<close>

fun join :: "string \<Rightarrow> string list \<Rightarrow> string" where
  "join sep [] = []"
| "join sep [x] = x"
| "join sep (x # y # ys) = x @ sep @ join sep (y # ys)"

text \<open>The object the \<open>catch\<close> block assigns (line 126).\<close>

definition default_shellInfo :: json_value where
  "default_shellInfo = JObject (Str ''bash'') (Some [''-i'']) (Str ''bash -i'')"

text \<open>
  The \<open>try\<close> block once \<open>response.json()\<close> has given a value: the assignment, the two
  guarded updates of the page, the log line.
\<close>

definition fetchShellInfo_try :: "json_value \<Rightarrow> action" where
  "fetchShellInfo_try shellInfo' =
     block
       [\<lambda>s. (None, s\<lparr>shellInfo := Some shellInfo'\<rparr>),
        \<lambda>s. (case header_title s of
                None \<Rightarrow> (None, s)
              | Some old \<Rightarrow>
                  (case shellInfo' of
                     JNull \<Rightarrow> (Some TypeError, s)
                   | JObject sh a fc \<Rightarrow>
                       (None, s\<lparr>header_title := Some (''Web Terminal - '' @ to_string sh)\<rparr>))),
        \<lambda>s. (case shell_info_element s of
                None \<Rightarrow> (None, s)
              | Some old \<Rightarrow>
                  (case shellInfo' of
                     JNull \<Rightarrow> (Some TypeError, s)
                   | JObject sh a fc \<Rightarrow>
                       (case a of
                          None \<Rightarrow> (Some TypeError, s)
                        | Some xs \<Rightarrow>
                            (None, s\<lparr>shell_info_element :=
                               Some (''Shell: '' @ to_string sh @ '' '' @ join '' '' xs)\<rparr>)))),
        console_log ''Shell info loaded:'']"

definition fetchShellInfo_catch :: action where
  "fetchShellInfo_catch =
     block
       [console_error ''Failed to fetch shell info:'',
        \<lambda>s. (None, s\<lparr>shellInfo := Some default_shellInfo\<rparr>)]"

text \<open>
  \<open>fetchShellInfo\<close>: a rejected \<open>fetch\<close>, a rejected \<open>response.json()\<close> and a throw
  anywhere in the \<open>try\<close> block all end in the \<open>catch\<close> block.
\<close>

definition fetchShellInfo :: "fetch_outcome \<Rightarrow> action" where
  "fetchShellInfo outcome s =
     (case outcome of
        FetchRejected \<Rightarrow> fetchShellInfo_catch s
      | JsonRejected \<Rightarrow> fetchShellInfo_catch s
      | Parsed shellInfo' \<Rightarrow>
          (case fetchShellInfo_try shellInfo' s of
             (None, s') \<Rightarrow> (None, s')
           | (Some e, s') \<Rightarrow> fetchShellInfo_catch s'))"

subsection \<open>\<open>setupEventListeners\<close> and its listeners\<close>

text \<open>\<open>element.addEventListener\<close> on the result of a \<open>querySelector\<close>.\<close>

definition addEventListener :: "listener \<Rightarrow> listener list option \<Rightarrow> listener list option" where
  "addEventListener l el = map_option (\<lambda>ls. ls @ [l]) el"

definition setupEventListeners :: action where
  "setupEventListeners =
     block
       [\<lambda>s. (None, s\<lparr>resize_listeners := resize_listeners s @ [ResizeListener]\<rparr>),
        \<lambda>s. (None, s\<lparr>beforeunload_listeners := beforeunload_listeners s @ [BeforeUnloadListener]\<rparr>),
        \<lambda>s. (case close_button s of
                None \<Rightarrow> (Some TypeError, s)
              | Some ls \<Rightarrow>
                  (None, s\<lparr>close_button := addEventListener CloseClickListener (close_button s)\<rparr>)),
        \<lambda>s. (case minimize_button s of
                None \<Rightarrow> (Some TypeError, s)
              | Some ls \<Rightarrow>
                  (None, s\<lparr>minimize_button := addEventListener MinimizeClickListener (minimize_button s)\<rparr>)),
        \<lambda>s. (case maximize_button s of
                None \<Rightarrow> (Some TypeError, s)
              | Some ls \<Rightarrow>
                  (None, s\<lparr>maximize_button := addEventListener MaximizeClickListener (maximize_button s)\<rparr>)),
        \<lambda>s. (None, s\<lparr>keydown_listeners := keydown_listeners s @ [KeydownListener]\<rparr>)]"

definition resize_listener :: action where
  "resize_listener s =
     (case fitAddon s of
        None \<Rightarrow> (None, s)
      | Some n \<Rightarrow> setTimeout FitCallback 100 s)"

definition beforeunload_listener :: action where
  "beforeunload_listener s =
     (case websocket s of
        None \<Rightarrow> (None, s)
      | Some i \<Rightarrow> (None, websocket_close i s))"

text \<open>The argument is what \<open>confirm\<close> answered.\<close>

definition close_click :: "bool \<Rightarrow> action" where
  "close_click confirmed s = (if confirmed then (None, s\<lparr>window_closed := True\<rparr>) else (None, s))"

text \<open>\<open>container\<close> holds \<open>style.transform\<close> of the element of class \<open>container\<close>.\<close>

definition minimize_click :: action where
  "minimize_click s =
     (case container s of
        None \<Rightarrow> (Some TypeError, s)
      | Some tr \<Rightarrow> setTimeout UnscaleCallback 200 (s\<lparr>container := Some ''scale(0.9)''\<rparr>))"

text \<open>The argument tells whether the browser grants the request.\<close>

definition maximize_click :: "bool \<Rightarrow> action" where
  "maximize_click granted s =
     (let s1 = s\<lparr>fullscreen_requests := Suc (fullscreen_requests s)\<rparr>
      in if granted then (None, s1) else console_log ''Fullscreen not supported:'' s1)"

text \<open>\<open>sendKeyboardInterrupt\<close>: the string \<open>'\u0003'\<close> is the one character of code 3.\<close>

definition sendKeyboardInterrupt :: action where
  "sendKeyboardInterrupt s =
     (if websocket_is_open s then (None, websocket_send [CHR 0x03] s) else (None, s))"

text \<open>The \<open>keydown\<close> listener of the document, given \<open>e.ctrlKey\<close> and \<open>e.key\<close>.\<close>

definition keydown_listener :: "bool \<Rightarrow> string \<Rightarrow> action" where
  "keydown_listener ctrlKey k =
     (if ctrlKey \<and> k = ''c''
      then block [preventDefault (KeydownEvent ctrlKey k), sendKeyboardInterrupt]
      else (\<lambda>s. (None, s)))"

definition focus :: action where
  "focus s =
     (case terminal s of
        None \<Rightarrow> (None, s)
      | Some t \<Rightarrow> terminal_call Focus s)"

subsection \<open>Themes\<close>

text \<open>The object literal \<open>themes\<close> of \<open>updateTerminalTheme\<close>: its own properties.\<close>

definition themes :: "(string \<times> (string \<times> jsval) list) list" where
  "themes =
     [(''dark'',
         [(''background'', Str ''#1f2937''), (''foreground'', Str ''#f9fafb''),
          (''cursor'', Str ''#3b82f6'')]),
      (''light'',
         [(''background'', Str ''#ffffff''), (''foreground'', Str ''#111827''),
          (''cursor'', Str ''#3b82f6'')]),
      (''cyberpunk'',
         [(''background'', Str ''#0a0a0a''), (''foreground'', Str ''#00ff00''),
          (''cursor'', Str ''#ff00ff'')]),
      (''synthwave'',
         [(''background'', Str ''#1a1a2e''), (''foreground'', Str ''#ff6b9d''),
          (''cursor'', Str ''#00d2ff'')])]"

text \<open>
  An object literal inherits from \<open>Object.prototype\<close>, and \<open>themes[theme]\<close> reads
  through the prototype chain. These are the property names \<open>Object.prototype\<close> has.
\<close>

definition object_prototype_properties :: "string list" where
  "object_prototype_properties =
     [''constructor'', ''hasOwnProperty'', ''isPrototypeOf'', ''propertyIsEnumerable'',
      ''toLocaleString'', ''toString'', ''valueOf'', ''__proto__'',
      ''__defineGetter__'', ''__defineSetter__'', ''__lookupGetter__'', ''__lookupSetter__'']"

text \<open>
  \<open>themes[theme]\<close>: \<open>None\<close> is \<open>undefined\<close>; otherwise the object found, read as the map
  of what \<open>.background\<close>, \<open>.foreground\<close> and \<open>.cursor\<close> find on it. An own property of
  \<open>themes\<close> is one of the four colour objects. An inherited one is a function of
  \<open>Object.prototype\<close> (or, for \<open>__proto__\<close>, that prototype itself): an object, so not
  \<open>undefined\<close>, on which none of the three names is found.
\<close>

definition themes_get :: "string \<Rightarrow> (string \<rightharpoonup> jsval) option" where
  "themes_get theme_name =
     (case map_of themes theme_name of
        Some colours \<Rightarrow> Some (map_of colours)
      | None \<Rightarrow>
          (if theme_name \<in> set object_prototype_properties then Some Map.empty else None))"

text \<open>A property read \<open>obj.name\<close>: \<open>undefined\<close> when the name is not found.\<close>

definition get_property :: "(string \<rightharpoonup> jsval) \<Rightarrow> string \<Rightarrow> jsval" where
  "get_property obj name = (case obj name of None \<Rightarrow> Undefined | Some v \<Rightarrow> v)"

text \<open>
  \<open>updateTerminalTheme\<close>. \<open>themes[theme] || themes.dark\<close> takes \<open>themes.dark\<close> when the
  left side is \<open>undefined\<close>; every object is truthy. Reading a colour of \<open>undefined\<close>
  would be a \<open>TypeError\<close>. The new theme object is the spread of the old one with three
  properties set.
\<close>

definition updateTerminalTheme :: "string \<Rightarrow> action" where
  "updateTerminalTheme theme_name s =
     (case terminal s of
        None \<Rightarrow> (None, s)
      | Some t \<Rightarrow>
          (case (case themes_get theme_name of
                   Some obj \<Rightarrow> Some obj
                 | None \<Rightarrow> themes_get ''dark'') of
             None \<Rightarrow> (Some TypeError, s)
           | Some selectedTheme \<Rightarrow>
               (None,
                s\<lparr>terminal := Some (t\<lparr>theme :=
                     (theme t)
                       (''background'' \<mapsto> get_property selectedTheme ''background'',
                        ''foreground'' \<mapsto> get_property selectedTheme ''foreground'',
                        ''cursor'' \<mapsto> get_property selectedTheme ''cursor'')\<rparr>)\<rparr>)))"

text \<open>
  What \<open>getAttribute\<close> returned, as the string every later use makes of it: a missing
  attribute is \<open>null\<close>, which \<open>setAttribute\<close>, \<open>setItem\<close> and a property key all print
  as \<open>null\<close>.
\<close>

definition attribute_string :: "string option \<Rightarrow> string" where
  "attribute_string a = (case a of None \<Rightarrow> ''null'' | Some v \<Rightarrow> v)"

text \<open>The click listener of a theme controller whose \<open>data-theme\<close> attribute is \<open>a\<close>.\<close>

definition theme_click :: "string option \<Rightarrow> action" where
  "theme_click a =
     block
       [preventDefault ClickEvent,
        \<lambda>s. (None, s\<lparr>data_theme := Some (attribute_string a)\<rparr>),
        updateTerminalTheme (attribute_string a),
        \<lambda>s. (None, s\<lparr>localStorage := (localStorage s)(''terminal-theme'' \<mapsto> attribute_string a)\<rparr>)]"

text \<open>
  \<open>localStorage.getItem('terminal-theme') || 'dark'\<close>: a missing item is \<open>null\<close>, and
  the empty string is falsy as well.
\<close>

definition savedTheme :: "state \<Rightarrow> string" where
  "savedTheme s =
     (case localStorage s ''terminal-theme'' of
        None \<Rightarrow> ''dark''
      | Some v \<Rightarrow> (if v = [] then ''dark'' else v))"

definition setupThemeController :: action where
  "setupThemeController =
     block
       [\<lambda>s. (None, s\<lparr>theme_controllers :=
                 map (\<lambda>(a, ls). (a, ls @ [ThemeClickListener])) (theme_controllers s)\<rparr>),
        \<lambda>s. (None, s\<lparr>data_theme := Some (savedTheme s)\<rparr>),
        \<lambda>s. updateTerminalTheme (savedTheme s) s]"

subsection \<open>\<open>init\<close>\<close>

text \<open>The argument is how the request awaited in \<open>fetchShellInfo\<close> ended.\<close>

definition init :: "fetch_outcome \<Rightarrow> action" where
  "init outcome =
     block
       [fetchShellInfo outcome,
        setupTerminal,
        connectWebSocket,
        setupEventListeners,
        setupThemeController,
        updateConnectionStatus]"

section \<open>The older copy (\<open>unnamed/part_000\<close>)\<close>

text \<open>
  The older file has the same \<open>onData\<close> listener, \<open>onmessage\<close>, \<open>onerror\<close> and
  \<open>sendKeyboardInterrupt\<close>, word for word. It has no \<open>connected\<close> field, no badge, no
  themes and no dialog: \<open>onopen\<close> only writes, and \<open>onclose\<close> sets a timer that
  connects again.
\<close>

definition connectWebSocket_part_000 :: action where
  "connectWebSocket_part_000 s =
     (None,
      s\<lparr>sockets := sockets s @
           [\<lparr>url = wsUrl s, readyState = CONNECTING, sent = [], close_called = False,
             handlers = Part_000\<rparr>],
        websocket := Some (length (sockets s))\<rparr>)"

definition onopen_part_000 :: action where
  "onopen_part_000 =
     block
       [terminal_call Clear,
        terminal_call (Writeln ''Connected to terminal server''),
        console_log ''WebSocket connected'']"

definition onclose_part_000 :: action where
  "onclose_part_000 =
     block
       [terminal_call (Writeln ([CHR 0x0D, CHR 0x0A, CHR 0x0A]
          @ ''Connection closed. Attempting to reconnect...'')),
        console_log ''WebSocket closed'',
        setTimeout ReconnectCallback 3000]"

section \<open>Events\<close>

text \<open>
  What the browser can deliver: the four events of a socket (named by its place in
  \<open>sockets\<close>), input typed into the terminal, a key, a click on a control, a resize, the
  unload of the page, and a timer that fires (named by its place in \<open>timers\<close>).
\<close>

datatype event =
    TransportOpen nat
  | TransportMessage nat ws_data
  | TransportClose nat
  | TransportError nat
  | UserInput string
  | Keydown bool string
  | ThemeControllerClick nat
  | ReconnectButtonClick
  | CloseButtonClick bool
  | MinimizeButtonClick
  | MaximizeButtonClick bool
  | WindowResize
  | BeforeUnload
  | TimerFires nat

text \<open>An error that leaves a listener is reported on the console; the state stays.\<close>

definition report :: "js_error option \<times> state \<Rightarrow> state" where
  "report r =
     (case r of
        (None, s) \<Rightarrow> s
      | (Some e, s) \<Rightarrow> s\<lparr>console := console s @ [Uncaught e]\<rparr>)"

text \<open>
  The body of a registered listener. Each kind of listener is registered for one kind
  of event; for any other event it is not called.
\<close>

definition listener_body :: "event \<Rightarrow> listener \<Rightarrow> action" where
  "listener_body ev l =
     (case l of
        DataListener \<Rightarrow>
          (case ev of UserInput data \<Rightarrow> onData data | _ \<Rightarrow> (\<lambda>s. (None, s)))
      | KeydownListener \<Rightarrow>
          (case ev of Keydown ctrlKey k \<Rightarrow> keydown_listener ctrlKey k | _ \<Rightarrow> (\<lambda>s. (None, s)))
      | ThemeClickListener \<Rightarrow>
          (case ev of
             ThemeControllerClick n \<Rightarrow>
               (\<lambda>s. if n < length (theme_controllers s)
                     then theme_click (fst (theme_controllers s ! n)) s
                     else (None, s))
           | _ \<Rightarrow> (\<lambda>s. (None, s)))
      | ReconnectClickListener \<Rightarrow>
          (case ev of ReconnectButtonClick \<Rightarrow> reconnect_click | _ \<Rightarrow> (\<lambda>s. (None, s)))
      | CloseClickListener \<Rightarrow>
          (case ev of CloseButtonClick confirmed \<Rightarrow> close_click confirmed | _ \<Rightarrow> (\<lambda>s. (None, s)))
      | MinimizeClickListener \<Rightarrow>
          (case ev of MinimizeButtonClick \<Rightarrow> minimize_click | _ \<Rightarrow> (\<lambda>s. (None, s)))
      | MaximizeClickListener \<Rightarrow>
          (case ev of MaximizeButtonClick granted \<Rightarrow> maximize_click granted | _ \<Rightarrow> (\<lambda>s. (None, s)))
      | ResizeListener \<Rightarrow>
          (case ev of WindowResize \<Rightarrow> resize_listener | _ \<Rightarrow> (\<lambda>s. (None, s)))
      | BeforeUnloadListener \<Rightarrow>
          (case ev of BeforeUnload \<Rightarrow> beforeunload_listener | _ \<Rightarrow> (\<lambda>s. (None, s))))"

text \<open>Every listener of the target runs, in the order of registration.\<close>

fun dispatch :: "event \<Rightarrow> listener list \<Rightarrow> state \<Rightarrow> state" where
  "dispatch ev [] s = s"
| "dispatch ev (l # ls) s = dispatch ev ls (report (listener_body ev l s))"

text \<open>The callbacks given to \<open>setTimeout\<close>.\<close>

fun timer_body :: "timer_callback \<Rightarrow> action" where
  "timer_body FitCallback =
     (\<lambda>s. case fitAddon s of
             None \<Rightarrow> (Some TypeError, s)
           | Some n \<Rightarrow> (None, s\<lparr>fitAddon := Some (Suc n)\<rparr>))"
| "timer_body UnscaleCallback = (\<lambda>s. (None, s\<lparr>container := map_option (\<lambda>tr. ''scale(1)'') (container s)\<rparr>))"
| "timer_body FocusCallback = focus"
| "timer_body ReconnectCallback = connectWebSocket_part_000"

definition set_readyState :: "nat \<Rightarrow> ready_state \<Rightarrow> state \<Rightarrow> state" where
  "set_readyState i r s = s\<lparr>sockets := (sockets s)[i := (sockets s ! i)\<lparr>readyState := r\<rparr>]\<rparr>"

text \<open>
  One event. The browser sets \<open>readyState\<close> before it fires \<open>open\<close> and \<open>close\<close>. An
  event of a socket or a timer that does not exist changes nothing. No other order is
  imposed, so the runs of this model include every run of the page. In a run of the
  page an \<open>error\<close> never comes alone: a browser fires it when the connection has
  failed, and fires \<open>close\<close> at the same socket directly after it, in the same task;
  that is \<open>TransportError i\<close> followed by \<open>TransportClose i\<close>.
\<close>

fun step :: "event \<Rightarrow> state \<Rightarrow> state" where
  "step (TransportOpen i) s =
     (if i < length (sockets s)
      then report
             ((case handlers (sockets s ! i) of
                 Static_app_js \<Rightarrow> onopen
               | Part_000 \<Rightarrow> onopen_part_000) (set_readyState i OPEN s))
      else s)"
| "step (TransportMessage i d) s =
     (if i < length (sockets s) then report (onmessage d s) else s)"
| "step (TransportClose i) s =
     (if i < length (sockets s)
      then report
             ((case handlers (sockets s ! i) of
                 Static_app_js \<Rightarrow> onclose
               | Part_000 \<Rightarrow> onclose_part_000) (set_readyState i CLOSED s))
      else s)"
| "step (TransportError i) s =
     (if i < length (sockets s) then report (onerror s) else s)"
| "step (UserInput data) s =
     (case terminal s of
        None \<Rightarrow> s
      | Some t \<Rightarrow> dispatch (UserInput data) (data_listeners t) s)"
| "step (Keydown ctrlKey k) s = dispatch (Keydown ctrlKey k) (keydown_listeners s) s"
| "step (ThemeControllerClick n) s =
     (if n < length (theme_controllers s)
      then dispatch (ThemeControllerClick n) (snd (theme_controllers s ! n)) s
      else s)"
| "step ReconnectButtonClick s =
     (case reconnect_btn s of
        None \<Rightarrow> s
      | Some ls \<Rightarrow> dispatch ReconnectButtonClick ls s)"
| "step (CloseButtonClick confirmed) s =
     (case close_button s of
        None \<Rightarrow> s
      | Some ls \<Rightarrow> dispatch (CloseButtonClick confirmed) ls s)"
| "step MinimizeButtonClick s =
     (case minimize_button s of
        None \<Rightarrow> s
      | Some ls \<Rightarrow> dispatch MinimizeButtonClick ls s)"
| "step (MaximizeButtonClick granted) s =
     (case maximize_button s of
        None \<Rightarrow> s
      | Some ls \<Rightarrow> dispatch (MaximizeButtonClick granted) ls s)"
| "step WindowResize s = dispatch WindowResize (resize_listeners s) s"
| "step BeforeUnload s = dispatch BeforeUnload (beforeunload_listeners s) s"
| "step (TimerFires k) s =
     (if k < length (timers s)
      then report
             (timer_body (snd (timers s ! k))
                (s\<lparr>timers := take k (timers s) @ drop (Suc k) (timers s)\<rparr>))
      else s)"

fun run :: "event list \<Rightarrow> state \<Rightarrow> state" where
  "run [] s = s"
| "run (ev # evs) s = run evs (step ev s)"

section \<open>The page\<close>

text \<open>
  What the program finds when it starts: the address of the page, which of the elements
  it looks up exist (and what they hold), the theme controllers with their \<open>data-theme\<close>
  attributes, and what \<open>localStorage\<close> holds. The markup is not among the sources, so
  it is a parameter.
\<close>

record page =
  page_protocol :: string
  page_host :: string
  page_terminal_element :: bool
  page_header_title :: "string option"
  page_shell_info_element :: "string option"
  page_badge :: "badge_el option"
  page_close_button :: bool
  page_minimize_button :: bool
  page_maximize_button :: bool
  page_container :: "string option"
  page_theme_controllers :: "string option list"
  page_data_theme :: "string option"
  page_reconnect_modal :: bool
  page_reconnect_btn :: bool
  page_localStorage :: "string \<rightharpoonup> string"

text \<open>The browser before the script runs: no listener, no socket, no timer.\<close>

definition element :: "bool \<Rightarrow> listener list option" where
  "element present = (if present then Some [] else None)"

definition browser :: "page \<Rightarrow> state" where
  "browser p =
     \<lparr>terminal = None,
      websocket = None,
      fitAddon = None,
      currentLine = [],
      connected = False,
      shellInfo = None,
      sockets = [],
      location_protocol = page_protocol p,
      location_host = page_host p,
      terminal_element = page_terminal_element p,
      header_title = page_header_title p,
      shell_info_element = page_shell_info_element p,
      badge = page_badge p,
      close_button = element (page_close_button p),
      minimize_button = element (page_minimize_button p),
      maximize_button = element (page_maximize_button p),
      container = page_container p,
      fullscreen_requests = 0,
      window_closed = False,
      theme_controllers = map (\<lambda>a. (a, [])) (page_theme_controllers p),
      data_theme = page_data_theme p,
      reconnect_modal = (if page_reconnect_modal p then Some False else None),
      reconnect_btn = element (page_reconnect_btn p),
      resize_listeners = [],
      beforeunload_listeners = [],
      keydown_listeners = [],
      localStorage = page_localStorage p,
      console = [],
      default_prevented = [],
      timers = []\<rparr>"

text \<open>
  The \<open>DOMContentLoaded\<close> listener (lines 278 to 284): the constructor, then the timer for
  \<open>focus\<close>. \<open>started\<close> is the state once the request of \<open>fetchShellInfo\<close> has ended
  and \<open>init\<close> has run to its end or to an error.
\<close>

definition DOMContentLoaded :: "page \<Rightarrow> state" where
  "DOMContentLoaded p = snd (setTimeout FocusCallback 500 (constructor (browser p)))"

definition started :: "page \<Rightarrow> fetch_outcome \<Rightarrow> state" where
  "started p outcome = report (init outcome (DOMContentLoaded p))"

section \<open>Notions of the specification\<close>

text \<open>
  The specification's description of what is displayed for an output chunk, in its own
  words: every line feed becomes the pair carriage return, line feed; no other byte is
  altered. It is compared below with \<open>replace_global\<close>, the model of the source.
\<close>

definition crlf_normalised :: "string \<Rightarrow> string" where
  "crlf_normalised chunk =
     concat (map (\<lambda>b. if b = CHR 0x0A then [CHR 0x0D, CHR 0x0A] else [b]) chunk)"

text \<open>The theme object of the display widget; empty while there is no widget.\<close>

definition terminal_theme :: "state \<Rightarrow> string \<rightharpoonup> jsval" where
  "terminal_theme s = (case terminal s of None \<Rightarrow> Map.empty | Some t \<Rightarrow> theme t)"

text \<open>The number of click listeners on the reconnect button of the page.\<close>

definition reconnect_handlers :: "state \<Rightarrow> nat" where
  "reconnect_handlers s = (case reconnect_btn s of None \<Rightarrow> 0 | Some ls \<Rightarrow> length ls)"

section \<open>Observations used in the proofs\<close>

text \<open>An action keeps an observation of the state when running it never changes it.\<close>

definition keeps :: "(state \<Rightarrow> 'a) \<Rightarrow> action \<Rightarrow> bool" where
  "keeps f a = (\<forall>s. f (snd (a s)) = f s)"

text \<open>
  What the later steps of \<open>init\<close> leave alone: the widget apart from its theme, the
  socket and the shell description.
\<close>

definition session ::
  "state \<Rightarrow> terminal_obj option \<times> nat option \<times> websocket_obj list \<times> json_value option" where
  "session s =
     (map_option (\<lambda>t. t\<lparr>theme := Map.empty\<rparr>) (terminal s), websocket s, sockets s, shellInfo s)"

text \<open>
  The state \<open>init\<close> has reached after a failed request once \<open>connectWebSocket\<close> has
  returned, on a page that has the element for the terminal.
\<close>

definition connecting :: "page \<Rightarrow> state" where
  "connecting p =
     (DOMContentLoaded p)
       \<lparr>console := [ConsoleError ''Failed to fetch shell info:''],
        shellInfo := Some default_shellInfo,
        terminal := Some (new_Terminal
          \<lparr>data_listeners := [DataListener],
           calls := [LoadAddon, OpenIn,
                     Writeln ''Welcome to Web Terminal'', Writeln ''Connecting to server...'']\<rparr>),
        fitAddon := Some 0,
        timers := [(500, FocusCallback), (100, FitCallback)],
        sockets :=
          [\<lparr>url = (if page_protocol p = ''https:'' then ''wss:'' else ''ws:'')
                    @ ''//'' @ page_host p @ ''/ws'',
            readyState = CONNECTING, sent = [], close_called = False,
            handlers = Static_app_js\<rparr>],
        websocket := Some 0\<rparr>"

text \<open>
  What decides the behaviour of the dialog: whether there is a widget, whether there is
  a dialog, and the listeners of the button. In every state a run reaches there is a
  widget, the dialog exists exactly when the page has one, and the button has no
  listener or the one of \<open>showReconnectDialog\<close>.
\<close>

definition dialog_view :: "state \<Rightarrow> bool \<times> bool \<times> listener list option" where
  "dialog_view s = (terminal s = None, reconnect_modal s = None, reconnect_btn s)"

text \<open>
  What is wired up: the view of the dialog, the \<open>keydown\<close> listeners of the document,
  and which of the elements \<open>init\<close> dereferences exist. Only \<open>setupTerminal\<close>,
  \<open>setupEventListeners\<close>, \<open>showReconnectDialog\<close> and the reconnect click change it.
\<close>

definition wiring ::
  "state \<Rightarrow> (bool \<times> bool \<times> listener list option) \<times> listener list \<times> bool
     \<times> listener list option \<times> listener list option \<times> listener list option" where
  "wiring s =
     (dialog_view s, keydown_listeners s, terminal_element s,
      close_button s, minimize_button s, maximize_button s)"

definition dialog_inv :: "page \<Rightarrow> state \<Rightarrow> bool" where
  "dialog_inv p s =
     (terminal s \<noteq> None
      \<and> (reconnect_modal s = None) = (\<not> page_reconnect_modal p)
      \<and> (reconnect_btn s = None \<or> reconnect_btn s = Some []
           \<or> reconnect_btn s = Some [ReconnectClickListener]))"

named_theorems keeps_view

section \<open>A page to run the program on\<close>

text \<open>
  A page with every element the program looks up, four theme controllers and an empty
  \<open>localStorage\<close>. \<open>demo_state\<close> is the program started on it with a failed request;
  in \<open>demo_open\<close> its socket has opened. In \<open>demo_closed\<close> that socket has closed
  again and the dialog is shown; in \<open>demo_reconnected\<close> the button has been clicked and
  the second socket has opened. \<open>demo_part_000\<close> is the older program on the same page
  once \<open>setupTerminal\<close> (the same in both files) and its \<open>connectWebSocket\<close> have run.
\<close>

definition demo_page :: page where
  "demo_page =
     \<lparr>page_protocol = ''http:'',
      page_host = ''localhost:8080'',
      page_terminal_element = True,
      page_header_title = Some ''Web Terminal'',
      page_shell_info_element = Some [],
      page_badge = Some \<lparr>classList = [''badge''], innerHTML = []\<rparr>,
      page_close_button = True,
      page_minimize_button = True,
      page_maximize_button = True,
      page_container = Some [],
      page_theme_controllers =
        [Some ''dark'', Some ''light'', Some ''cyberpunk'', Some ''synthwave''],
      page_data_theme = None,
      page_reconnect_modal = True,
      page_reconnect_btn = True,
      page_localStorage = Map.empty\<rparr>"

definition demo_state :: state where
  "demo_state = started demo_page FetchRejected"

definition demo_open :: state where
  "demo_open = step (TransportOpen 0) demo_state"

definition demo_closed :: state where
  "demo_closed = run [TransportOpen 0, TransportClose 0] demo_state"

definition demo_reconnected :: state where
  "demo_reconnected =
     run [TransportOpen 0, TransportClose 0, ReconnectButtonClick, TransportOpen 1] demo_state"

definition demo_part_000 :: state where
  "demo_part_000 =
     snd (connectWebSocket_part_000 (snd (setupTerminal (constructor (browser demo_page)))))"

section \<open>Statement lists\<close>

lemma block_ok: "fst (a s) = None \<Longrightarrow> block (a # as) s = block as (snd (a s))"
  by (cases "a s") simp

lemma block_throw: "fst (a s) = Some e \<Longrightarrow> block (a # as) s = (Some e, snd (a s))"
  by (cases "a s") simp

lemma report_ok [simp]: "report (None, s) = s"
  by (simp add: report_def)

lemma preventDefault_simps [simp]:
  "fst (preventDefault e s) = None"
  "snd (preventDefault e s) = s\<lparr>default_prevented := default_prevented s @ [e]\<rparr>"
  by (simp_all add: preventDefault_def)

lemma keepsD: "keeps f a \<Longrightarrow> f (snd (a s)) = f s"
  by (simp add: keeps_def)

text \<open>A statement list keeps what each of its statements keeps, thrown or not.\<close>

lemma keeps_block: "list_all (keeps f) as \<Longrightarrow> keeps f (block as)"
proof (induction as)
  case Nil
  then show ?case by (simp add: keeps_def)
next
  case (Cons a as)
  then have a: "keeps f a" and as: "keeps f (block as)" by simp_all
  show ?case
    unfolding keeps_def
  proof
    fix s
    show "f (snd (block (a # as) s)) = f s"
    proof (cases "a s")
      case (Pair e s')
      then have "f s' = f s" using keepsD [OF a, of s] by simp
      then show ?thesis
        using Pair keepsD [OF as, of s'] by (cases e) simp_all
    qed
  qed
qed

section \<open>What the handlers do when the widget exists\<close>

lemma setupTerminal_result:
  assumes "terminal_element s"
  shows "setupTerminal s =
     (None,
      s\<lparr>terminal := Some (new_Terminal
           \<lparr>data_listeners := [DataListener],
            calls := [LoadAddon, OpenIn,
                      Writeln ''Welcome to Web Terminal'', Writeln ''Connecting to server...'']\<rparr>),
        fitAddon := Some 0,
        timers := timers s @ [(100, FitCallback)]\<rparr>)"
  using assms
  by (simp add: setupTerminal_def terminal_call_def terminal_onData_def setTimeout_def
      new_Terminal_def)

text \<open>Without the element the method stops inside \<open>open\<close>.\<close>

lemma setupTerminal_no_element:
  assumes "\<not> terminal_element s"
  shows "setupTerminal s =
     (Some Error,
      s\<lparr>terminal := Some (new_Terminal\<lparr>calls := [LoadAddon]\<rparr>), fitAddon := Some 0\<rparr>)"
  using assms
  by (simp add: setupTerminal_def terminal_call_def new_Terminal_def)

lemma onclose_effect:
  assumes "terminal s = Some t" and "reconnect_btn s = Some ls" and "reconnect_modal s = Some b"
  shows "onclose s =
      (None,
       s\<lparr>terminal := Some (t\<lparr>calls := calls t @
              [Writeln ([CHR 0x0D, CHR 0x0A, CHR 0x0A] @ ''Connection closed.'')]\<rparr>),
         connected := False,
         badge := map_option
           (\<lambda>b. \<lparr>classList = classList_add ''badge-error''
                     (classList_remove ''badge-success'' (classList b)),
                 innerHTML = ''<div class=\"w-2 h-2 rounded-full bg-error\"></div>Disconnected''\<rparr>)
           (badge s),
         console := console s @ [ConsoleLog ''WebSocket closed''],
         reconnect_btn := Some [ReconnectClickListener],
         reconnect_modal := Some True\<rparr>)"
  using assms
  by (cases "badge s")
     (simp_all add: onclose_def terminal_call_def updateConnectionStatus_def console_log_def
        showReconnectDialog_def)

text \<open>
  The flag and the badge are set before \<open>showReconnectDialog\<close> is called, so they are
  set also when the page has no dialog.
\<close>

lemma onclose_status:
  assumes "terminal s = Some t"
  shows "connected (snd (onclose s)) = False"
    and "badge (snd (onclose s)) = map_option
           (\<lambda>b. \<lparr>classList = classList_add ''badge-error''
                     (classList_remove ''badge-success'' (classList b)),
                 innerHTML = ''<div class=\"w-2 h-2 rounded-full bg-error\"></div>Disconnected''\<rparr>)
           (badge s)"
  using assms
  by (simp_all add: onclose_def terminal_call_def updateConnectionStatus_def console_log_def
        showReconnectDialog_def split: option.splits)

lemma onclose_part_000_effect:
  assumes "terminal s = Some t"
  shows "onclose_part_000 s =
      (None,
       s\<lparr>terminal := Some (t\<lparr>calls := calls t @
              [Writeln ([CHR 0x0D, CHR 0x0A, CHR 0x0A]
                 @ ''Connection closed. Attempting to reconnect...'')]\<rparr>),
         console := console s @ [ConsoleLog ''WebSocket closed''],
         timers := timers s @ [(3000, ReconnectCallback)]\<rparr>)"
  using assms
  by (simp add: onclose_part_000_def terminal_call_def console_log_def setTimeout_def)

lemma onerror_effect:
  assumes "terminal s = Some t"
  shows "onerror s =
      (None,
       s\<lparr>terminal := Some (t\<lparr>calls := calls t @
              [Writeln ([CHR 0x0D, CHR 0x0A, CHR 0x0A] @ ''Connection error occurred'')]\<rparr>),
         console := console s @ [ConsoleError ''WebSocket error:'']\<rparr>)"
  using assms by (simp add: onerror_def terminal_call_def console_error_def)

lemma reconnect_click_effect:
  assumes "terminal s = Some t" and "reconnect_modal s = Some b"
  shows "reconnect_click s =
      (None,
       s\<lparr>reconnect_modal := Some False,
         terminal := Some (t\<lparr>calls := calls t @ [Writeln ''Attempting to reconnect...'']\<rparr>),
         sockets := sockets s @
           [\<lparr>url = wsUrl s, readyState = CONNECTING, sent = [], close_called = False,
             handlers = Static_app_js\<rparr>],
         websocket := Some (length (sockets s))\<rparr>)"
  using assms by (simp add: reconnect_click_def terminal_call_def connectWebSocket_def wsUrl_def)

section \<open>The concrete states\<close>

lemmas start_defs = started_def init_def DOMContentLoaded_def browser_def
  constructor_def setTimeout_def fetchShellInfo_def fetchShellInfo_catch_def
  fetchShellInfo_try_def console_error_def console_log_def setupTerminal_def
  terminal_call_def terminal_onData_def connectWebSocket_def setupEventListeners_def
  addEventListener_def element_def setupThemeController_def savedTheme_def
  updateTerminalTheme_def themes_get_def themes_def get_property_def
  updateConnectionStatus_def report_def wsUrl_def classList_add_def classList_remove_def

lemma demo_state_terminal:
  "terminal demo_state =
     Some (new_Terminal
       \<lparr>theme := (map_of initial_theme)
           (''background'' \<mapsto> Str ''#1f2937'', ''foreground'' \<mapsto> Str ''#f9fafb'',
            ''cursor'' \<mapsto> Str ''#3b82f6''),
        data_listeners := [DataListener],
        calls := [LoadAddon, OpenIn, Writeln ''Welcome to Web Terminal'',
                  Writeln ''Connecting to server...'']\<rparr>)"
  by (simp add: demo_state_def demo_page_def start_defs new_Terminal_def)

lemma demo_state_sockets:
  "sockets demo_state =
     [\<lparr>url = ''ws://localhost:8080/ws'', readyState = CONNECTING, sent = [],
       close_called = False, handlers = Static_app_js\<rparr>]"
  "websocket demo_state = Some 0"
  by (simp_all add: demo_state_def demo_page_def start_defs)

lemma demo_state_dialog:
  "reconnect_btn demo_state = Some []"
  "reconnect_modal demo_state = Some False"
  by (simp_all add: demo_state_def demo_page_def start_defs)

lemma websocket_is_open_demo_state: "\<not> websocket_is_open demo_state"
  by (simp add: websocket_is_open_def demo_state_sockets)

lemma demo_open_sockets:
  "sockets demo_open =
     [\<lparr>url = ''ws://localhost:8080/ws'', readyState = OPEN, sent = [],
       close_called = False, handlers = Static_app_js\<rparr>]"
  "websocket demo_open = Some 0"
  by (simp_all add: demo_open_def demo_state_sockets demo_state_terminal set_readyState_def
      onopen_def terminal_call_def updateConnectionStatus_def console_log_def report_def
      split: option.splits)

lemma demo_open_fields:
  "terminal demo_open =
     Some (new_Terminal
       \<lparr>theme := (map_of initial_theme)
           (''background'' \<mapsto> Str ''#1f2937'', ''foreground'' \<mapsto> Str ''#f9fafb'',
            ''cursor'' \<mapsto> Str ''#3b82f6''),
        data_listeners := [DataListener],
        calls := [LoadAddon, OpenIn, Writeln ''Welcome to Web Terminal'',
                  Writeln ''Connecting to server...'', Clear,
                  Writeln ''Connected to terminal server'']\<rparr>)"
  "reconnect_btn demo_open = Some []"
  "reconnect_modal demo_open = Some False"
  "connected demo_open = True"
  "badge demo_open = Some
     \<lparr>classList = [''badge'', ''badge-success''],
      innerHTML = ''<div class=\"w-2 h-2 rounded-full bg-success animate-pulse\"></div>Connected''\<rparr>"
  "timers demo_open = [(500, FocusCallback), (100, FitCallback)]"
  by (simp_all add: demo_open_def demo_state_def demo_page_def start_defs new_Terminal_def
       set_readyState_def onopen_def)

lemma websocket_is_open_demo_open: "websocket_is_open demo_open"
  by (simp add: websocket_is_open_def demo_open_sockets)

lemma demo_part_000_fields:
  "terminal demo_part_000 =
     Some (new_Terminal
       \<lparr>data_listeners := [DataListener],
        calls := [LoadAddon, OpenIn, Writeln ''Welcome to Web Terminal'',
                  Writeln ''Connecting to server...'']\<rparr>)"
  "sockets demo_part_000 =
     [\<lparr>url = ''ws://localhost:8080/ws'', readyState = CONNECTING, sent = [],
       close_called = False, handlers = Part_000\<rparr>]"
  "websocket demo_part_000 = Some 0"
  "timers demo_part_000 = [(100, FitCallback)]"
  "badge demo_part_000 = Some \<lparr>classList = [''badge''], innerHTML = []\<rparr>"
  "reconnect_modal demo_part_000 = Some False"
  "reconnect_btn demo_part_000 = Some []"
  by (simp_all add: demo_part_000_def demo_page_def browser_def constructor_def
       setupTerminal_def terminal_call_def terminal_onData_def setTimeout_def new_Terminal_def
       connectWebSocket_part_000_def wsUrl_def element_def)

section \<open>Output: line feeds become carriage return, line feed\<close>

lemma replace_global_concat:
  "replace_global c r xs = concat (map (\<lambda>x. if x = c then r else [x]) xs)"
  by (induction xs) simp_all

lemma crlf_normalised_no_cr:
  "filter (\<lambda>b. b \<noteq> CHR 0x0D) (crlf_normalised chunk) = filter (\<lambda>b. b \<noteq> CHR 0x0D) chunk"
  by (induction chunk) (simp_all add: crlf_normalised_def)

lemma crlf_normalised_length:
  "length (crlf_normalised chunk) = length chunk + count_list chunk (CHR 0x0A)"
  by (induction chunk) (simp_all add: crlf_normalised_def)

text \<open>
  Claim C1. For a text chunk received from any socket, \<open>onmessage\<close> makes exactly one
  call on the display widget, \<open>write\<close>, and its argument is the chunk with every line
  feed replaced by carriage return, line feed, every other byte unchanged and in place.
  Nothing but carriage returns is added (dropping them from the chunk and from what is
  displayed gives the same bytes), one per line feed; a chunk that holds \<open>\r\n\<close> is
  displayed with \<open>\r\r\n\<close> there.
\<close>

theorem onmessage_writes_crlf_normalised:
  assumes "terminal s = Some t"
  shows "onmessage (Text chunk) s =
           (None, s\<lparr>terminal := Some (t\<lparr>calls := calls t @ [Write (crlf_normalised chunk)]\<rparr>)\<rparr>)
         \<and> (i < length (sockets s) \<longrightarrow>
              step (TransportMessage i (Text chunk)) s =
                s\<lparr>terminal := Some (t\<lparr>calls := calls t @ [Write (crlf_normalised chunk)]\<rparr>)\<rparr>)
         \<and> filter (\<lambda>b. b \<noteq> CHR 0x0D) (crlf_normalised chunk) = filter (\<lambda>b. b \<noteq> CHR 0x0D) chunk
         \<and> length (crlf_normalised chunk) = length chunk + count_list chunk (CHR 0x0A)
         \<and> crlf_normalised (xs @ [CHR 0x0D, CHR 0x0A] @ ys) =
             crlf_normalised xs @ [CHR 0x0D, CHR 0x0D, CHR 0x0A] @ crlf_normalised ys"
proof -
  have "replace_global (CHR 0x0A) [CHR 0x0D, CHR 0x0A] chunk = crlf_normalised chunk"
    by (simp add: replace_global_concat crlf_normalised_def)
  then have "onmessage (Text chunk) s =
           (None, s\<lparr>terminal := Some (t\<lparr>calls := calls t @ [Write (crlf_normalised chunk)]\<rparr>)\<rparr>)"
    using assms by (simp add: onmessage_def terminal_call_def)
  moreover have "crlf_normalised (xs @ [CHR 0x0D, CHR 0x0A] @ ys) =
             crlf_normalised xs @ [CHR 0x0D, CHR 0x0D, CHR 0x0A] @ crlf_normalised ys"
    by (simp add: crlf_normalised_def)
  ultimately show ?thesis
    by (simp add: crlf_normalised_no_cr crlf_normalised_length)
qed

theorem onmessage_writes_crlf_normalised_witness:
  "terminal demo_state \<noteq> None
   \<and> 0 < length (sockets demo_state)
   \<and> fst (onmessage (Text [CHR ''h'', CHR ''i'', CHR 0x0D, CHR 0x0A]) demo_state) = None
   \<and> map_option (last \<circ> calls)
        (terminal (snd (onmessage (Text [CHR ''h'', CHR ''i'', CHR 0x0D, CHR 0x0A]) demo_state)))
       = Some (Write [CHR ''h'', CHR ''i'', CHR 0x0D, CHR 0x0D, CHR 0x0A])
   \<and> map_option (last \<circ> calls)
        (terminal (step (TransportMessage 0 (Text [CHR ''h'', CHR ''i'', CHR 0x0D, CHR 0x0A]))
           demo_state))
       = Some (Write [CHR ''h'', CHR ''i'', CHR 0x0D, CHR 0x0D, CHR 0x0A])"
proof -
  note th = onmessage_writes_crlf_normalised [OF demo_state_terminal,
      of "[CHR ''h'', CHR ''i'', CHR 0x0D, CHR 0x0A]" 0 "[]" "[]"]
  from th [THEN conjunct1] have 1:
    "fst (onmessage (Text [CHR ''h'', CHR ''i'', CHR 0x0D, CHR 0x0A]) demo_state) = None"
    "map_option (last \<circ> calls)
        (terminal (snd (onmessage (Text [CHR ''h'', CHR ''i'', CHR 0x0D, CHR 0x0A]) demo_state)))
       = Some (Write [CHR ''h'', CHR ''i'', CHR 0x0D, CHR 0x0D, CHR 0x0A])"
    by (simp_all add: crlf_normalised_def)
  from th [THEN conjunct2, THEN conjunct1] have 2:
    "map_option (last \<circ> calls)
        (terminal (step (TransportMessage 0 (Text [CHR ''h'', CHR ''i'', CHR 0x0D, CHR 0x0A]))
           demo_state))
       = Some (Write [CHR ''h'', CHR ''i'', CHR 0x0D, CHR 0x0D, CHR 0x0A])"
    by (simp add: demo_state_sockets crlf_normalised_def)
  from 1 2 show ?thesis
    by (simp add: demo_state_terminal demo_state_sockets)
qed

section \<open>Input: sent only on an open socket\<close>

lemma listener_body_UserInput_closed:
  "\<not> websocket_is_open s \<Longrightarrow> report (listener_body (UserInput data) l s) = s"
  by (cases l) (simp_all add: listener_body_def onData_def)

lemma dispatch_UserInput_closed:
  "\<not> websocket_is_open s \<Longrightarrow> dispatch (UserInput data) ls s = s"
  by (induction ls) (simp_all add: listener_body_UserInput_closed)

text \<open>
  Claim C2. The test of the \<open>onData\<close> listener is that \<open>this.websocket\<close> is set and its
  \<open>readyState\<close> is \<open>OPEN\<close>. While it fails, an input event leaves the whole state as it
  was: nothing is sent on any socket and nothing is kept anywhere, so the run that
  follows is the run without the input.
\<close>

theorem input_dropped_unless_open:
  assumes "\<not> websocket_is_open s"
  shows "onData data s = (None, s)
         \<and> step (UserInput data) s = s
         \<and> run (UserInput data # evs) s = run evs s"
proof -
  have "step (UserInput data) s = s"
    using assms by (simp add: dispatch_UserInput_closed split: option.splits)
  then show ?thesis
    using assms by (simp add: onData_def)
qed

theorem input_dropped_unless_open_witness:
  "\<not> websocket_is_open demo_state
   \<and> onData ''ls'' demo_state = (None, demo_state)
   \<and> step (UserInput ''ls'') demo_state = demo_state
   \<and> run [UserInput ''ls'', UserInput ''pwd''] demo_state = demo_state"
  using input_dropped_unless_open [OF websocket_is_open_demo_state, of "''ls''" "[UserInput ''pwd'']"]
    input_dropped_unless_open [OF websocket_is_open_demo_state, of "''pwd''" "[]"]
  by (simp add: websocket_is_open_demo_state)

section \<open>Themes\<close>

lemma terminal_theme_updateTerminalTheme:
  "k \<notin> {''background'', ''foreground'', ''cursor''} \<Longrightarrow>
     terminal_theme (snd (updateTerminalTheme theme_name s)) k = terminal_theme s k"
  by (auto simp add: terminal_theme_def updateTerminalTheme_def split: option.splits)

lemma terminal_theme_frame [simp]:
  "terminal_theme (s\<lparr>default_prevented := dp\<rparr>) = terminal_theme s"
  "terminal_theme (s\<lparr>data_theme := dt\<rparr>) = terminal_theme s"
  "terminal_theme (s\<lparr>localStorage := st\<rparr>) = terminal_theme s"
  "terminal_theme (s\<lparr>theme_controllers := tc\<rparr>) = terminal_theme s"
  by (simp_all add: terminal_theme_def)

text \<open>\<open>updateTerminalTheme\<close> does not throw, whatever the name.\<close>

lemma updateTerminalTheme_error:
  "fst (updateTerminalTheme theme_name s) = None"
  by (auto simp add: updateTerminalTheme_def themes_get_def themes_def split: option.splits)

text \<open>
  Claim C10. \<open>updateTerminalTheme\<close>, the click listener of a theme controller and
  \<open>setupThemeController\<close> leave every property of the widget's theme other than
  \<open>background\<close>, \<open>foreground\<close> and \<open>cursor\<close> as it was: the sixteen palette colours,
  \<open>selection\<close>, and any other property the object has.
\<close>

theorem theme_change_touches_three_fields:
  assumes "k \<notin> {''background'', ''foreground'', ''cursor''}"
  shows "terminal_theme (snd (updateTerminalTheme theme_name s)) k = terminal_theme s k
         \<and> terminal_theme (snd (theme_click a s)) k = terminal_theme s k
         \<and> terminal_theme (snd (setupThemeController s)) k = terminal_theme s k"
proof -
  have 1: "terminal_theme (snd (updateTerminalTheme n s')) k = terminal_theme s' k" for n s'
    using assms by (rule terminal_theme_updateTerminalTheme)
  have 2: "terminal_theme (snd (theme_click a s)) k = terminal_theme s k"
    by (simp add: theme_click_def block_ok updateTerminalTheme_error 1 del: block.simps(2))
  have 3: "terminal_theme (snd (setupThemeController s)) k = terminal_theme s k"
    by (simp add: setupThemeController_def block_ok updateTerminalTheme_error 1 del: block.simps(2))
  from 1 2 3 show ?thesis by simp
qed

lemma demo_state_theme_red: "terminal_theme demo_state ''red'' = Some (Str ''#cd3131'')"
  by (simp add: terminal_theme_def demo_state_terminal initial_theme_def)

theorem theme_change_touches_three_fields_witness:
  "''red'' \<notin> {''background'', ''foreground'', ''cursor''}
   \<and> terminal_theme (snd (updateTerminalTheme ''light'' demo_state)) ''red'' = Some (Str ''#cd3131'')
   \<and> terminal_theme (snd (theme_click (Some ''cyberpunk'') demo_state)) ''red'' = Some (Str ''#cd3131'')
   \<and> terminal_theme (snd (setupThemeController demo_state)) ''red'' = Some (Str ''#cd3131'')"
  using theme_change_touches_three_fields [of "''red''" "''light''" demo_state "Some ''cyberpunk''"]
  by (simp add: demo_state_theme_red)

text \<open>A name of \<open>themes\<close> applies the three colours of that theme.\<close>

lemma updateTerminalTheme_known:
  assumes "terminal s = Some t" and "map_of themes theme_name = Some colours"
  shows "updateTerminalTheme theme_name s =
           (None, s\<lparr>terminal := Some (t\<lparr>theme := (theme t)
              (''background'' \<mapsto> get_property (map_of colours) ''background'',
               ''foreground'' \<mapsto> get_property (map_of colours) ''foreground'',
               ''cursor'' \<mapsto> get_property (map_of colours) ''cursor'')\<rparr>)\<rparr>)"
  using assms by (simp add: updateTerminalTheme_def themes_get_def)

text \<open>
  A name that is neither a theme nor a property of \<open>Object.prototype\<close> applies the
  colours of \<open>dark\<close>.
\<close>

lemma updateTerminalTheme_fallback:
  assumes "terminal s = Some t" and "map_of themes theme_name = None"
    and "theme_name \<notin> set object_prototype_properties"
  shows "updateTerminalTheme theme_name s =
           (None, s\<lparr>terminal := Some (t\<lparr>theme := (theme t)
              (''background'' \<mapsto> Str ''#1f2937'',
               ''foreground'' \<mapsto> Str ''#f9fafb'',
               ''cursor'' \<mapsto> Str ''#3b82f6'')\<rparr>)\<rparr>)"
  using assms by (simp add: updateTerminalTheme_def themes_get_def get_property_def themes_def)

text \<open>
  A name that \<open>Object.prototype\<close> has finds an object, so \<open>themes.dark\<close> is not taken,
  and the three colours are read from an object that has none of them.
\<close>

lemma updateTerminalTheme_inherited:
  assumes "terminal s = Some t" and "theme_name \<in> set object_prototype_properties"
  shows "updateTerminalTheme theme_name s =
           (None, s\<lparr>terminal := Some (t\<lparr>theme := (theme t)
              (''background'' \<mapsto> Undefined,
               ''foreground'' \<mapsto> Undefined,
               ''cursor'' \<mapsto> Undefined)\<rparr>)\<rparr>)"
proof -
  have "map_of themes theme_name = None"
    using assms(2) by (auto simp add: themes_def object_prototype_properties_def)
  then show ?thesis
    using assms by (simp add: updateTerminalTheme_def themes_get_def get_property_def)
qed

text \<open>
  Claim C5. The claim asks that every name that is not a theme applies the colours of
  the default theme. The name \<open>constructor\<close> is not a theme, and \<open>updateTerminalTheme\<close>
  sets the three colours to \<open>undefined\<close> for it; a name such as \<open>no such theme\<close> does
  get the colours of \<open>dark\<close>. Neither call throws.
\<close>

theorem updateTerminalTheme_constructor:
  "map_of themes ''constructor'' = None
   \<and> fst (updateTerminalTheme ''constructor'' demo_state) = None
   \<and> map (terminal_theme (snd (updateTerminalTheme ''constructor'' demo_state)))
        [''background'', ''foreground'', ''cursor'']
       = [Some Undefined, Some Undefined, Some Undefined]
   \<and> map (terminal_theme (snd (updateTerminalTheme ''no such theme'' demo_state)))
        [''background'', ''foreground'', ''cursor'']
       = [Some (Str ''#1f2937''), Some (Str ''#f9fafb''), Some (Str ''#3b82f6'')]"
  by (simp add: updateTerminalTheme_inherited [OF demo_state_terminal]
       updateTerminalTheme_fallback [OF demo_state_terminal]
       object_prototype_properties_def themes_def terminal_theme_def)

section \<open>Startup after a failed request\<close>

lemma fetchShellInfo_catch_result:
  "fetchShellInfo_catch s =
     (None, s\<lparr>console := console s @ [ConsoleError ''Failed to fetch shell info:''],
             shellInfo := Some default_shellInfo\<rparr>)"
  by (simp add: fetchShellInfo_catch_def console_error_def)

lemma fetchShellInfo_failure:
  assumes "outcome = FetchRejected \<or> outcome = JsonRejected"
  shows "fetchShellInfo outcome s = fetchShellInfo_catch s"
  using assms by (auto simp add: fetchShellInfo_def)

text \<open>\<open>fetchShellInfo\<close> catches whatever its \<open>try\<close> block throws.\<close>

lemma fetchShellInfo_ok: "fst (fetchShellInfo outcome s) = None"
  by (cases outcome)
     (auto simp add: fetchShellInfo_def fetchShellInfo_catch_result split: prod.splits option.splits)

lemma keeps_session_updateTerminalTheme: "keeps session (updateTerminalTheme n)"
  by (auto simp add: keeps_def session_def updateTerminalTheme_def split: option.splits)

lemma keeps_session_setupEventListeners: "keeps session setupEventListeners"
  unfolding setupEventListeners_def
  by (rule keeps_block) (simp add: keeps_def session_def split: option.splits)

lemma keeps_session_setupThemeController: "keeps session setupThemeController"
  unfolding setupThemeController_def
  by (rule keeps_block)
     (simp add: keeps_def session_def
        keepsD [OF keeps_session_updateTerminalTheme, unfolded session_def])

lemma keeps_session_updateConnectionStatus: "keeps session updateConnectionStatus"
  by (simp add: keeps_def session_def updateConnectionStatus_def split: option.splits)

lemma setupEventListeners_ok:
  "close_button s \<noteq> None \<Longrightarrow> minimize_button s \<noteq> None \<Longrightarrow> maximize_button s \<noteq> None
     \<Longrightarrow> fst (setupEventListeners s) = None"
  by (auto simp add: setupEventListeners_def)

lemma setupThemeController_ok: "fst (setupThemeController s) = None"
  by (simp add: setupThemeController_def block_ok updateTerminalTheme_error del: block.simps(2))

lemma updateConnectionStatus_ok: "fst (updateConnectionStatus s) = None"
  by (simp add: updateConnectionStatus_def split: option.splits)

lemma init_fetch_failure:
  assumes "outcome = FetchRejected \<or> outcome = JsonRejected" and "page_terminal_element p"
  shows "init outcome (DOMContentLoaded p) =
           block [setupEventListeners, setupThemeController, updateConnectionStatus] (connecting p)"
proof -
  let ?s1 = "snd (fetchShellInfo outcome (DOMContentLoaded p))"
  have "terminal_element ?s1"
    using assms(2)
    by (simp add: fetchShellInfo_failure [OF assms(1)] fetchShellInfo_catch_result
          DOMContentLoaded_def browser_def constructor_def setTimeout_def)
  from setupTerminal_result [OF this] show ?thesis
    by (simp add: init_def fetchShellInfo_failure [OF assms(1)] fetchShellInfo_catch_result
          block_ok connectWebSocket_def connecting_def DOMContentLoaded_def
          browser_def constructor_def setTimeout_def wsUrl_def
        del: block.simps(2))
qed

text \<open>
  On a page without the element for the terminal \<open>init\<close> stops in \<open>setupTerminal\<close>,
  before any socket is constructed.
\<close>

lemma init_without_terminal_element:
  assumes "\<not> page_terminal_element p"
  shows "fst (init outcome (DOMContentLoaded p)) = Some Error"
    and "sockets (snd (init outcome (DOMContentLoaded p))) = []"
    and "websocket (snd (init outcome (DOMContentLoaded p))) = None"
proof -
  let ?s0 = "DOMContentLoaded p"
  let ?s1 = "snd (fetchShellInfo outcome ?s0)"
  have k: "keeps (\<lambda>s. (terminal_element s, sockets s, websocket s)) (fetchShellInfo_try v)" for v
    unfolding fetchShellInfo_try_def
    by (rule keeps_block)
       (simp add: keeps_def console_log_def split: option.splits json_value.splits)
  have 1: "terminal_element ?s1 = terminal_element ?s0 \<and> sockets ?s1 = sockets ?s0
      \<and> websocket ?s1 = websocket ?s0"
  proof (cases outcome)
    case (Parsed v)
    show ?thesis
    proof (cases "fetchShellInfo_try v ?s0")
      case (Pair e s')
      then show ?thesis
        using keepsD [OF k, of v ?s0]
        by (cases e) (simp_all add: Parsed fetchShellInfo_def fetchShellInfo_catch_result)
    qed
  qed (simp_all add: fetchShellInfo_def fetchShellInfo_catch_result)
  then have "\<not> terminal_element ?s1" "sockets ?s1 = []" "websocket ?s1 = None"
    using assms
    by (simp_all add: DOMContentLoaded_def browser_def constructor_def setTimeout_def)
  then show "fst (init outcome (DOMContentLoaded p)) = Some Error"
    and "sockets (snd (init outcome (DOMContentLoaded p))) = []"
    and "websocket (snd (init outcome (DOMContentLoaded p))) = None"
    by (simp_all add: init_def block_ok block_throw fetchShellInfo_ok setupTerminal_no_element
          del: block.simps(2))
qed

lemma session_init_fetch_failure:
  assumes "outcome = FetchRejected \<or> outcome = JsonRejected" and "page_terminal_element p"
  shows "session (snd (init outcome (DOMContentLoaded p))) = session (connecting p)"
proof -
  have "keeps session (block [setupEventListeners, setupThemeController, updateConnectionStatus])"
    by (rule keeps_block)
       (simp add: keeps_session_setupEventListeners keeps_session_setupThemeController
          keeps_session_updateConnectionStatus)
  then show ?thesis
    unfolding init_fetch_failure [OF assms] by (rule keepsD)
qed

lemma init_completes:
  assumes "outcome = FetchRejected \<or> outcome = JsonRejected" and "page_terminal_element p"
    and "page_close_button p" and "page_minimize_button p" and "page_maximize_button p"
  shows "fst (init outcome (DOMContentLoaded p)) = None"
proof -
  have "fst (setupEventListeners (connecting p)) = None"
    using assms(3-5)
    by (intro setupEventListeners_ok)
       (simp_all add: connecting_def DOMContentLoaded_def browser_def constructor_def
          setTimeout_def element_def)
  then show ?thesis
    by (simp add: init_fetch_failure [OF assms(1,2)] block_ok setupThemeController_ok
         updateConnectionStatus_ok del: block.simps(2))
qed

text \<open>
  Claim C4. When \<open>fetch\<close> rejects (a network error) or \<open>response.json()\<close> rejects (a
  body that does not parse), on a page that has the element the terminal is opened in,
  \<open>init\<close> leaves \<open>shellInfo\<close> set to the default description with shell \<open>bash\<close> and
  arguments \<open>-i\<close>, the widget constructed, configured and opened with the input listener
  registered, and one socket to the page's host in state \<open>CONNECTING\<close> as the current
  one. On a page that also has the three window buttons \<open>init\<close> runs to its end without
  an error.
\<close>

theorem init_survives_fetch_failure:
  assumes "outcome = FetchRejected \<or> outcome = JsonRejected" and "page_terminal_element p"
  shows "shellInfo (snd (init outcome (DOMContentLoaded p))) =
           Some (JObject (Str ''bash'') (Some [''-i'']) (Str ''bash -i''))
         \<and> (\<exists>t. terminal (snd (init outcome (DOMContentLoaded p))) = Some t
              \<and> calls t = [LoadAddon, OpenIn,
                   Writeln ''Welcome to Web Terminal'', Writeln ''Connecting to server...'']
              \<and> data_listeners t = [DataListener]
              \<and> cols t = 80 \<and> rows t = 24 \<and> fontSize t = 14 \<and> cursorBlink t)
         \<and> sockets (snd (init outcome (DOMContentLoaded p))) =
             [\<lparr>url = (if page_protocol p = ''https:'' then ''wss:'' else ''ws:'')
                      @ ''//'' @ page_host p @ ''/ws'',
               readyState = CONNECTING, sent = [], close_called = False,
               handlers = Static_app_js\<rparr>]
         \<and> websocket (snd (init outcome (DOMContentLoaded p))) = Some 0
         \<and> (page_close_button p \<and> page_minimize_button p \<and> page_maximize_button p
              \<longrightarrow> fst (init outcome (DOMContentLoaded p)) = None)"
proof -
  let ?s = "snd (init outcome (DOMContentLoaded p))"
  have s: "session ?s = session (connecting p)"
    using assms by (rule session_init_fetch_failure)
  from s obtain t where t: "terminal ?s = Some t"
    and t': "t\<lparr>theme := Map.empty\<rparr> = new_Terminal
              \<lparr>data_listeners := [DataListener],
               calls := [LoadAddon, OpenIn,
                  Writeln ''Welcome to Web Terminal'', Writeln ''Connecting to server...''],
               theme := Map.empty\<rparr>"
    by (auto simp add: session_def connecting_def)
  have "calls (t\<lparr>theme := Map.empty\<rparr>) = calls t"
    "data_listeners (t\<lparr>theme := Map.empty\<rparr>) = data_listeners t"
    "cols (t\<lparr>theme := Map.empty\<rparr>) = cols t" "rows (t\<lparr>theme := Map.empty\<rparr>) = rows t"
    "fontSize (t\<lparr>theme := Map.empty\<rparr>) = fontSize t"
    "cursorBlink (t\<lparr>theme := Map.empty\<rparr>) = cursorBlink t"
    by simp_all
  then have widget: "calls t = [LoadAddon, OpenIn,
                   Writeln ''Welcome to Web Terminal'', Writeln ''Connecting to server...'']
              \<and> data_listeners t = [DataListener]
              \<and> cols t = 80 \<and> rows t = 24 \<and> fontSize t = 14 \<and> cursorBlink t"
    unfolding t' by (simp add: new_Terminal_def)
  from s have rest: "shellInfo ?s = Some default_shellInfo" "websocket ?s = Some 0"
    "sockets ?s = [\<lparr>url = (if page_protocol p = ''https:'' then ''wss:'' else ''ws:'')
                      @ ''//'' @ page_host p @ ''/ws'',
               readyState = CONNECTING, sent = [], close_called = False,
               handlers = Static_app_js\<rparr>]"
    by (simp_all add: session_def connecting_def)
  show ?thesis
    using t widget rest init_completes [OF assms, of]
    by (simp add: default_shellInfo_def)
qed

theorem init_survives_fetch_failure_witness:
  "(JsonRejected = FetchRejected \<or> JsonRejected = JsonRejected)
   \<and> page_terminal_element demo_page
   \<and> page_close_button demo_page \<and> page_minimize_button demo_page
   \<and> page_maximize_button demo_page
   \<and> shellInfo (snd (init JsonRejected (DOMContentLoaded demo_page))) =
       Some (JObject (Str ''bash'') (Some [''-i'']) (Str ''bash -i''))
   \<and> terminal (snd (init JsonRejected (DOMContentLoaded demo_page))) \<noteq> None
   \<and> map url (sockets (snd (init JsonRejected (DOMContentLoaded demo_page)))) =
       [''ws://localhost:8080/ws'']
   \<and> map readyState (sockets (snd (init JsonRejected (DOMContentLoaded demo_page)))) = [CONNECTING]
   \<and> websocket (snd (init JsonRejected (DOMContentLoaded demo_page))) = Some 0
   \<and> fst (init JsonRejected (DOMContentLoaded demo_page)) = None"
proof -
  have e: "page_terminal_element demo_page"
    by (simp add: demo_page_def)
  show ?thesis
    using init_survives_fetch_failure [of JsonRejected demo_page, OF _ e]
    by (auto simp add: demo_page_def)
qed

section \<open>The close and error events\<close>

text \<open>
  Claim C3, as amended. In \<open>static/app.js\<close>, on a page that has the dialog and its
  button, the \<open>close\<close> handler sets \<open>connected\<close> to false, puts the badge in its
  disconnected form, and shows the dialog with exactly one click listener on its button;
  it constructs no socket and sets no timer, so nothing connects again unless the user
  clicks. The older copy of the class has no badge and no dialog: its \<open>close\<close> handler
  writes a message and sets a timer of 3000 ms whose callback is \<open>connectWebSocket\<close>.
\<close>

theorem onclose_marks_closed_and_offers_reconnect:
  assumes "terminal s = Some t" and "reconnect_btn s = Some ls" and "reconnect_modal s = Some b"
  shows "fst (onclose s) = None
     \<and> connected (snd (onclose s)) = False
     \<and> badge (snd (onclose s)) = map_option
           (\<lambda>b. \<lparr>classList = classList_add ''badge-error''
                     (classList_remove ''badge-success'' (classList b)),
                 innerHTML = ''<div class=\"w-2 h-2 rounded-full bg-error\"></div>Disconnected''\<rparr>)
           (badge s)
     \<and> reconnect_modal (snd (onclose s)) = Some True
     \<and> reconnect_btn (snd (onclose s)) = Some [ReconnectClickListener]
     \<and> sockets (snd (onclose s)) = sockets s
     \<and> websocket (snd (onclose s)) = websocket s
     \<and> timers (snd (onclose s)) = timers s
     \<and> onclose_part_000 s =
          (None,
           s\<lparr>terminal := Some (t\<lparr>calls := calls t @
                  [Writeln ([CHR 0x0D, CHR 0x0A, CHR 0x0A]
                     @ ''Connection closed. Attempting to reconnect...'')]\<rparr>),
             console := console s @ [ConsoleLog ''WebSocket closed''],
             timers := timers s @ [(3000, ReconnectCallback)]\<rparr>)
     \<and> timer_body ReconnectCallback = connectWebSocket_part_000"
  by (simp add: onclose_effect [OF assms] onclose_part_000_effect [OF assms(1)])

theorem onclose_marks_closed_and_offers_reconnect_witness:
  "terminal demo_open \<noteq> None \<and> reconnect_btn demo_open = Some []
   \<and> reconnect_modal demo_open = Some False
   \<and> connected demo_open
   \<and> fst (onclose demo_open) = None
   \<and> connected (snd (onclose demo_open)) = False
   \<and> map_option classList (badge (snd (onclose demo_open))) = Some [''badge'', ''badge-error'']
   \<and> reconnect_modal (snd (onclose demo_open)) = Some True
   \<and> reconnect_btn (snd (onclose demo_open)) = Some [ReconnectClickListener]
   \<and> length (sockets (snd (onclose demo_open))) = 1
   \<and> timers (snd (onclose demo_open)) = [(500, FocusCallback), (100, FitCallback)]"
  using onclose_marks_closed_and_offers_reconnect
          [OF demo_open_fields(1) demo_open_fields(2) demo_open_fields(3)]
  by (simp add: demo_open_fields demo_open_sockets classList_add_def classList_remove_def)

text \<open>
  Claim C3 as stated fails on the older copy. Its socket closes: a timer that connects
  again is pending, the dialog is not shown, the button has no listener and the badge is
  as the page had it; when the timer fires there is a second socket, connecting, and it
  is the current one.
\<close>

theorem onclose_part_000_retries:
  "handlers (sockets demo_part_000 ! 0) = Part_000
   \<and> timers (step (TransportClose 0) demo_part_000) =
       [(100, FitCallback), (3000, ReconnectCallback)]
   \<and> reconnect_modal (step (TransportClose 0) demo_part_000) = Some False
   \<and> reconnect_btn (step (TransportClose 0) demo_part_000) = Some []
   \<and> badge (step (TransportClose 0) demo_part_000) =
       Some \<lparr>classList = [''badge''], innerHTML = []\<rparr>
   \<and> map readyState (sockets (run [TransportClose 0, TimerFires 1] demo_part_000)) =
       [CLOSED, CONNECTING]
   \<and> websocket (run [TransportClose 0, TimerFires 1] demo_part_000) = Some 1"
  by (simp add: demo_part_000_fields set_readyState_def onclose_part_000_def terminal_call_def
       console_log_def setTimeout_def connectWebSocket_part_000_def)

lemma report_status [simp]:
  "connected (report r) = connected (snd r)"
  "badge (report r) = badge (snd r)"
  by (cases r; simp add: report_def split: option.splits)+

text \<open>
  Claim C8. A browser reports a failed connection, whether it fails while it is opened
  or after it was open, by firing \<open>error\<close> and then \<open>close\<close> at the socket, in one task.
  The \<open>error\<close> handler writes a line to the terminal and logs the error on the console,
  and nothing else. After the two events \<open>connected\<close> is false and the badge is in its
  disconnected form. On a page that has the dialog the state after the two events is
  the state before them with these changes only: the socket is \<open>CLOSED\<close>, the two lines
  are written, the two entries are logged, the flag and the badge are set, and the
  dialog is shown with one listener on its button. The widget, the current socket and
  every other socket, \<open>shellInfo\<close>, the listeners and the timers are as they were.
\<close>

theorem transport_error_logged_and_shown_disconnected:
  assumes "terminal s = Some t" and "i < length (sockets s)"
    and "handlers (sockets s ! i) = Static_app_js"
  shows "onerror s =
      (None,
       s\<lparr>terminal := Some (t\<lparr>calls := calls t @
              [Writeln ([CHR 0x0D, CHR 0x0A, CHR 0x0A] @ ''Connection error occurred'')]\<rparr>),
         console := console s @ [ConsoleError ''WebSocket error:'']\<rparr>)
     \<and> connected (run [TransportError i, TransportClose i] s) = False
     \<and> badge (run [TransportError i, TransportClose i] s) = map_option
           (\<lambda>b. \<lparr>classList = classList_add ''badge-error''
                     (classList_remove ''badge-success'' (classList b)),
                 innerHTML = ''<div class=\"w-2 h-2 rounded-full bg-error\"></div>Disconnected''\<rparr>)
           (badge s)
     \<and> (reconnect_btn s = Some ls \<and> reconnect_modal s = Some b \<longrightarrow>
          run [TransportError i, TransportClose i] s =
            s\<lparr>sockets := (sockets s)[i := (sockets s ! i)\<lparr>readyState := CLOSED\<rparr>],
              terminal := Some (t\<lparr>calls := calls t @
                [Writeln ([CHR 0x0D, CHR 0x0A, CHR 0x0A] @ ''Connection error occurred''),
                 Writeln ([CHR 0x0D, CHR 0x0A, CHR 0x0A] @ ''Connection closed.'')]\<rparr>),
              console := console s @
                [ConsoleError ''WebSocket error:'', ConsoleLog ''WebSocket closed''],
              connected := False,
              badge := map_option
                (\<lambda>b. \<lparr>classList = classList_add ''badge-error''
                          (classList_remove ''badge-success'' (classList b)),
                      innerHTML =
                        ''<div class=\"w-2 h-2 rounded-full bg-error\"></div>Disconnected''\<rparr>)
                (badge s),
              reconnect_btn := Some [ReconnectClickListener],
              reconnect_modal := Some True\<rparr>)"
proof -
  let ?t1 = "t\<lparr>calls := calls t @
              [Writeln ([CHR 0x0D, CHR 0x0A, CHR 0x0A] @ ''Connection error occurred'')]\<rparr>"
  let ?s1 = "s\<lparr>terminal := Some ?t1,
               console := console s @ [ConsoleError ''WebSocket error:'']\<rparr>"
  let ?s2 = "set_readyState i CLOSED ?s1"
  have e: "onerror s = (None, ?s1)"
    by (rule onerror_effect [OF assms(1)])
  have r: "run [TransportError i, TransportClose i] s = report (onclose ?s2)"
    using assms(2,3) by (simp add: e)
  have t2: "terminal ?s2 = Some ?t1"
    by (simp add: set_readyState_def)
  have status: "connected (run [TransportError i, TransportClose i] s) = False"
    "badge (run [TransportError i, TransportClose i] s) = map_option
           (\<lambda>b. \<lparr>classList = classList_add ''badge-error''
                     (classList_remove ''badge-success'' (classList b)),
                 innerHTML = ''<div class=\"w-2 h-2 rounded-full bg-error\"></div>Disconnected''\<rparr>)
           (badge s)"
  proof -
    have "badge ?s2 = badge s"
      by (simp add: set_readyState_def)
    with onclose_status [OF t2]
    show "connected (run [TransportError i, TransportClose i] s) = False"
      and "badge (run [TransportError i, TransportClose i] s) = map_option
           (\<lambda>b. \<lparr>classList = classList_add ''badge-error''
                     (classList_remove ''badge-success'' (classList b)),
                 innerHTML = ''<div class=\"w-2 h-2 rounded-full bg-error\"></div>Disconnected''\<rparr>)
           (badge s)"
      unfolding r by simp_all
  qed
  have full: "run [TransportError i, TransportClose i] s =
            s\<lparr>sockets := (sockets s)[i := (sockets s ! i)\<lparr>readyState := CLOSED\<rparr>],
              terminal := Some (t\<lparr>calls := calls t @
                [Writeln ([CHR 0x0D, CHR 0x0A, CHR 0x0A] @ ''Connection error occurred''),
                 Writeln ([CHR 0x0D, CHR 0x0A, CHR 0x0A] @ ''Connection closed.'')]\<rparr>),
              console := console s @
                [ConsoleError ''WebSocket error:'', ConsoleLog ''WebSocket closed''],
              connected := False,
              badge := map_option
                (\<lambda>b. \<lparr>classList = classList_add ''badge-error''
                          (classList_remove ''badge-success'' (classList b)),
                      innerHTML =
                        ''<div class=\"w-2 h-2 rounded-full bg-error\"></div>Disconnected''\<rparr>)
                (badge s),
              reconnect_btn := Some [ReconnectClickListener],
              reconnect_modal := Some True\<rparr>"
    if d: "reconnect_btn s = Some ls" "reconnect_modal s = Some b"
  proof -
    have "reconnect_btn ?s2 = Some ls" "reconnect_modal ?s2 = Some b"
      using d by (simp_all add: set_readyState_def)
    from onclose_effect [OF t2 this] show ?thesis
      unfolding r by (simp add: set_readyState_def)
  qed
  from e status full show ?thesis
    by blast
qed

theorem transport_error_logged_and_shown_disconnected_witness:
  "terminal demo_open \<noteq> None \<and> 0 < length (sockets demo_open)
   \<and> handlers (sockets demo_open ! 0) = Static_app_js
   \<and> reconnect_btn demo_open = Some [] \<and> reconnect_modal demo_open = Some False
   \<and> connected demo_open = True
   \<and> fst (onerror demo_open) = None
   \<and> console (snd (onerror demo_open)) = console demo_open @ [ConsoleError ''WebSocket error:'']
   \<and> connected (run [TransportError 0, TransportClose 0] demo_open) = False
   \<and> map_option classList (badge (run [TransportError 0, TransportClose 0] demo_open)) =
       Some [''badge'', ''badge-error'']
   \<and> console (run [TransportError 0, TransportClose 0] demo_open) =
       console demo_open @ [ConsoleError ''WebSocket error:'', ConsoleLog ''WebSocket closed'']
   \<and> map readyState (sockets (run [TransportError 0, TransportClose 0] demo_open)) = [CLOSED]
   \<and> websocket (run [TransportError 0, TransportClose 0] demo_open) = Some 0
   \<and> terminal (run [TransportError 0, TransportClose 0] demo_open) \<noteq> None
   \<and> connected (run [TransportError 0, TransportClose 0] demo_state) = False
   \<and> map_option classList (badge (run [TransportError 0, TransportClose 0] demo_state)) =
       Some [''badge'', ''badge-error'']"
proof -
  have h: "0 < length (sockets demo_open)" "handlers (sockets demo_open ! 0) = Static_app_js"
    "0 < length (sockets demo_state)" "handlers (sockets demo_state ! 0) = Static_app_js"
    by (simp_all add: demo_open_sockets demo_state_sockets)
  have bs: "map_option classList (badge demo_state) = Some [''badge'', ''badge-error'']"
    by (simp add: demo_state_def demo_page_def start_defs)
  note th = transport_error_logged_and_shown_disconnected
              [OF demo_open_fields(1) h(1) h(2), of "[]" False]
  note th' = transport_error_logged_and_shown_disconnected [OF demo_state_terminal h(3) h(4)]
  from th [THEN conjunct1] have 1: "fst (onerror demo_open) = None"
    "console (snd (onerror demo_open)) = console demo_open @ [ConsoleError ''WebSocket error:'']"
    by simp_all
  from th [THEN conjunct2, THEN conjunct1]
  have 2: "connected (run [TransportError 0, TransportClose 0] demo_open) = False" .
  from th [THEN conjunct2, THEN conjunct2, THEN conjunct1]
  have 3: "map_option classList (badge (run [TransportError 0, TransportClose 0] demo_open)) =
       Some [''badge'', ''badge-error'']"
    by (simp add: demo_open_fields classList_add_def classList_remove_def
          del: run.simps step.simps)
  note f = th [THEN conjunct2, THEN conjunct2, THEN conjunct2, THEN mp,
      OF conjI [OF demo_open_fields(2) demo_open_fields(3)]]
  have 4: "console (run [TransportError 0, TransportClose 0] demo_open) =
       console demo_open @ [ConsoleError ''WebSocket error:'', ConsoleLog ''WebSocket closed'']"
    "map readyState (sockets (run [TransportError 0, TransportClose 0] demo_open)) = [CLOSED]"
    "websocket (run [TransportError 0, TransportClose 0] demo_open) = Some 0"
    "terminal (run [TransportError 0, TransportClose 0] demo_open) \<noteq> None"
    unfolding f by (simp_all add: demo_open_sockets)
  from th' [THEN conjunct2, THEN conjunct1]
  have 5: "connected (run [TransportError 0, TransportClose 0] demo_state) = False" .
  from th' [THEN conjunct2, THEN conjunct2, THEN conjunct1] bs
  have 6: "map_option classList (badge (run [TransportError 0, TransportClose 0] demo_state)) =
       Some [''badge'', ''badge-error'']"
    by (cases "badge demo_state")
       (simp_all add: classList_add_def classList_remove_def del: run.simps step.simps)
  from 1 2 3 4 5 6 h show ?thesis
    by (simp add: demo_open_fields del: run.simps step.simps)
qed

section \<open>Reconnecting\<close>

text \<open>
  Claim C7, as amended. The click listener of the reconnect button closes the dialog
  (not the transport), writes a line to the terminal and then calls
  \<open>connectWebSocket\<close>, the method that is the third step of \<open>init\<close>: a new socket to
  the same URL, in state \<open>CONNECTING\<close>, becomes the current one. The sockets that existed
  stay exactly as they were; \<open>close()\<close> is called on none of them.
\<close>

theorem reconnect_click_opens_without_closing:
  assumes "terminal s = Some t" and "reconnect_modal s = Some b"
  shows "reconnect_click s =
           connectWebSocket
             (s\<lparr>reconnect_modal := Some False,
                terminal := Some (t\<lparr>calls := calls t @ [Writeln ''Attempting to reconnect...'']\<rparr>)\<rparr>)
     \<and> sockets (snd (reconnect_click s)) = sockets s @
           [\<lparr>url = wsUrl s, readyState = CONNECTING, sent = [], close_called = False,
             handlers = Static_app_js\<rparr>]
     \<and> websocket (snd (reconnect_click s)) = Some (length (sockets s))
     \<and> sockets (snd (connectWebSocket s)) = sockets s @
           [\<lparr>url = wsUrl s, readyState = CONNECTING, sent = [], close_called = False,
             handlers = Static_app_js\<rparr>]
     \<and> websocket (snd (connectWebSocket s)) = Some (length (sockets s))
     \<and> init outcome =
          block [fetchShellInfo outcome, setupTerminal, connectWebSocket, setupEventListeners,
                 setupThemeController, updateConnectionStatus]"
  by (simp add: reconnect_click_effect [OF assms] connectWebSocket_def wsUrl_def init_def)

theorem reconnect_click_opens_without_closing_witness:
  "terminal demo_open \<noteq> None \<and> reconnect_modal demo_open = Some False
   \<and> map readyState (sockets (snd (reconnect_click demo_open))) = [OPEN, CONNECTING]
   \<and> map close_called (sockets (snd (reconnect_click demo_open))) = [False, False]
   \<and> map url (sockets (snd (reconnect_click demo_open))) =
       [''ws://localhost:8080/ws'', ''ws://localhost:8080/ws'']
   \<and> websocket (snd (reconnect_click demo_open)) = Some 1"
proof -
  have "wsUrl demo_open = ''ws://localhost:8080/ws''"
    by (simp add: wsUrl_def demo_open_def demo_state_def demo_page_def start_defs
          set_readyState_def onopen_def)
  then show ?thesis
    using reconnect_click_opens_without_closing
            [OF demo_open_fields(1) demo_open_fields(3), THEN conjunct2]
    by (simp add: demo_open_fields demo_open_sockets)
qed

text \<open>
  Claim C7 as stated fails. After the first socket has closed and the user has
  reconnected, \<open>close()\<close> has been called on no socket. And when the listener runs while
  the current socket is open (the button keeps its listener after the dialog closes),
  that socket stays open, with \<open>close()\<close> not called, beside the new one.
\<close>

theorem reconnect_click_leaves_open_socket:
  "map readyState (sockets (step ReconnectButtonClick demo_closed)) = [CLOSED, CONNECTING]
   \<and> map close_called (sockets (step ReconnectButtonClick demo_closed)) = [False, False]
   \<and> map readyState (sockets demo_reconnected) = [CLOSED, OPEN]
   \<and> websocket demo_reconnected = Some 1
   \<and> map readyState (sockets (step ReconnectButtonClick demo_reconnected)) =
       [CLOSED, OPEN, CONNECTING]
   \<and> map close_called (sockets (step ReconnectButtonClick demo_reconnected)) =
       [False, False, False]
   \<and> websocket (step ReconnectButtonClick demo_reconnected) = Some 2"
  by (simp add: demo_closed_def demo_reconnected_def demo_state_def demo_page_def start_defs
       new_Terminal_def set_readyState_def onopen_def onclose_def showReconnectDialog_def
       listener_body_def reconnect_click_def)

section \<open>What the handlers leave wired as it was\<close>

lemma keeps_skip [keeps_view]: "keeps f (\<lambda>s. (None, s))"
  by (simp add: keeps_def)

lemma keeps_view_record [keeps_view]:
  "keeps wiring (\<lambda>s. (None, s\<lparr>connected := c\<rparr>))"
  "keeps wiring (\<lambda>s. (None, s\<lparr>data_theme := dt s\<rparr>))"
  "keeps wiring (\<lambda>s. (None, s\<lparr>localStorage := st s\<rparr>))"
  "keeps wiring (\<lambda>s. (None, s\<lparr>theme_controllers := tc s\<rparr>))"
  "keeps wiring (\<lambda>s. (None, s\<lparr>fitAddon := fa s\<rparr>))"
  "keeps wiring (\<lambda>s. (None, s\<lparr>container := co s\<rparr>))"
  "keeps wiring (\<lambda>s. (None, s\<lparr>shellInfo := si s\<rparr>))"
  "keeps wiring (\<lambda>s. (None, s\<lparr>resize_listeners := rl s\<rparr>))"
  "keeps wiring (\<lambda>s. (None, s\<lparr>beforeunload_listeners := bl s\<rparr>))"
  by (simp_all add: keeps_def wiring_def dialog_view_def)

lemma keeps_view_terminal_call [keeps_view]: "keeps wiring (terminal_call c)"
  by (simp add: keeps_def wiring_def dialog_view_def terminal_call_def split: option.splits)

lemma keeps_view_console_log [keeps_view]: "keeps wiring (console_log m)"
  by (simp add: keeps_def wiring_def dialog_view_def console_log_def)

lemma keeps_view_console_error [keeps_view]: "keeps wiring (console_error m)"
  by (simp add: keeps_def wiring_def dialog_view_def console_error_def)

lemma keeps_view_setTimeout [keeps_view]: "keeps wiring (setTimeout cb ms)"
  by (simp add: keeps_def wiring_def dialog_view_def setTimeout_def)

lemma keeps_view_preventDefault [keeps_view]: "keeps wiring (preventDefault e)"
  by (simp add: keeps_def wiring_def dialog_view_def preventDefault_def)

lemma keeps_view_updateConnectionStatus [keeps_view]: "keeps wiring updateConnectionStatus"
  by (simp add: keeps_def wiring_def dialog_view_def updateConnectionStatus_def split: option.splits)

lemma keeps_view_updateTerminalTheme [keeps_view]: "keeps wiring (updateTerminalTheme n)"
  by (simp add: keeps_def wiring_def dialog_view_def updateTerminalTheme_def split: option.splits)

lemma keeps_view_connectWebSocket [keeps_view]: "keeps wiring connectWebSocket"
  by (simp add: keeps_def wiring_def dialog_view_def connectWebSocket_def)

lemma keeps_view_connectWebSocket_part_000 [keeps_view]:
  "keeps wiring connectWebSocket_part_000"
  by (simp add: keeps_def wiring_def dialog_view_def connectWebSocket_part_000_def)

lemma keeps_view_sendKeyboardInterrupt [keeps_view]: "keeps wiring sendKeyboardInterrupt"
  by (simp add: keeps_def wiring_def dialog_view_def sendKeyboardInterrupt_def websocket_send_def
      split: option.splits)

lemma keeps_view_onData [keeps_view]: "keeps wiring (onData d)"
  by (simp add: keeps_def wiring_def dialog_view_def onData_def websocket_send_def split: option.splits)

lemma keeps_view_onopen [keeps_view]: "keeps wiring onopen"
  unfolding onopen_def by (rule keeps_block) (simp add: keeps_view)

lemma keeps_view_onopen_part_000 [keeps_view]: "keeps wiring onopen_part_000"
  unfolding onopen_part_000_def by (rule keeps_block) (simp add: keeps_view)

lemma keeps_view_onclose_part_000 [keeps_view]: "keeps wiring onclose_part_000"
  unfolding onclose_part_000_def by (rule keeps_block) (simp add: keeps_view)

lemma keeps_view_onerror [keeps_view]: "keeps wiring onerror"
  unfolding onerror_def by (rule keeps_block) (simp add: keeps_view)

lemma keeps_view_onmessage [keeps_view]: "keeps wiring (onmessage d)"
  by (cases d)
     (simp_all add: keeps_def wiring_def dialog_view_def onmessage_def terminal_call_def split: option.splits)

lemma keeps_view_keydown_listener [keeps_view]: "keeps wiring (keydown_listener c k)"
  unfolding keydown_listener_def
  by (auto intro!: keeps_block simp add: keeps_view)

lemma keeps_view_theme_click [keeps_view]: "keeps wiring (theme_click a)"
  unfolding theme_click_def by (rule keeps_block) (simp add: keeps_view)

lemma keeps_view_close_click [keeps_view]: "keeps wiring (close_click b)"
  by (simp add: keeps_def wiring_def dialog_view_def close_click_def)

lemma keeps_view_minimize_click [keeps_view]: "keeps wiring minimize_click"
  by (simp add: keeps_def wiring_def dialog_view_def minimize_click_def setTimeout_def split: option.splits)

lemma keeps_view_maximize_click [keeps_view]: "keeps wiring (maximize_click b)"
  by (simp add: keeps_def wiring_def dialog_view_def maximize_click_def console_log_def Let_def)

lemma keeps_view_resize_listener [keeps_view]: "keeps wiring resize_listener"
  by (simp add: keeps_def wiring_def dialog_view_def resize_listener_def setTimeout_def split: option.splits)

lemma keeps_view_beforeunload_listener [keeps_view]: "keeps wiring beforeunload_listener"
  by (simp add: keeps_def wiring_def dialog_view_def beforeunload_listener_def websocket_close_def
      split: option.splits)

lemma keeps_view_focus [keeps_view]: "keeps wiring focus"
  by (simp add: keeps_def wiring_def dialog_view_def focus_def terminal_call_def split: option.splits)

lemma keeps_view_timer_body [keeps_view]: "keeps wiring (timer_body cb)"
  by (cases cb) (simp_all add: keeps_view, simp add: keeps_def wiring_def dialog_view_def split: option.splits)

lemma keeps_view_fetchShellInfo_try: "keeps wiring (fetchShellInfo_try v)"
  unfolding fetchShellInfo_try_def
  by (rule keeps_block)
     (simp add: keeps_view,
      simp add: keeps_def wiring_def dialog_view_def split: option.splits json_value.splits)

lemma keeps_view_fetchShellInfo: "keeps wiring (fetchShellInfo outcome)"
proof (cases outcome)
  case (Parsed v)
  show ?thesis
    unfolding keeps_def
  proof
    fix s
    show "wiring (snd (fetchShellInfo outcome s)) = wiring s"
    proof (cases "fetchShellInfo_try v s")
      case (Pair e s')
      then have "wiring s' = wiring s"
        using keepsD [OF keeps_view_fetchShellInfo_try, of v s] by simp
      moreover have "wiring (snd (fetchShellInfo_catch s')) = wiring s'"
        by (simp add: fetchShellInfo_catch_result wiring_def dialog_view_def)
      ultimately show ?thesis
        using Pair by (cases e) (simp_all add: Parsed fetchShellInfo_def)
    qed
  qed
qed (simp_all add: keeps_def fetchShellInfo_def fetchShellInfo_catch_result wiring_def dialog_view_def)

lemma keeps_dialog_view_setupEventListeners: "keeps dialog_view setupEventListeners"
  unfolding setupEventListeners_def
  by (rule keeps_block) (simp add: keeps_def dialog_view_def split: option.splits)

lemma keeps_view_setupThemeController: "keeps wiring setupThemeController"
  unfolding setupThemeController_def
  by (rule keeps_block)
     (simp add: keeps_view, simp add: keeps_def keepsD [OF keeps_view_updateTerminalTheme])

lemma wiring_report [simp]: "wiring (report r) = wiring (snd r)"
  by (cases r) (simp add: report_def wiring_def dialog_view_def split: option.splits)

lemma wiring_set_readyState [simp]: "wiring (set_readyState i r s) = wiring s"
  by (simp add: wiring_def dialog_view_def set_readyState_def)

lemma wiring_timers [simp]: "wiring (s\<lparr>timers := ts\<rparr>) = wiring s"
  by (simp add: wiring_def dialog_view_def)

lemma keeps_wiring_dialog_view: "keeps wiring a \<Longrightarrow> keeps dialog_view a"
  by (simp add: keeps_def wiring_def)

lemma keeps_wiring_keydown: "keeps wiring a \<Longrightarrow> keeps keydown_listeners a"
  by (simp add: keeps_def wiring_def)

section \<open>One click listener on the reconnect button\<close>

lemma dialog_inv_view: "dialog_view s' = dialog_view s \<Longrightarrow> dialog_inv p s' = dialog_inv p s"
  by (auto simp add: dialog_view_def dialog_inv_def)

lemma dialog_inv_keeps_view:
  "keeps dialog_view a \<Longrightarrow> dialog_inv p (snd (a s)) = dialog_inv p s"
  by (rule dialog_inv_view) (rule keepsD)

lemma dialog_inv_keeps: "keeps wiring a \<Longrightarrow> dialog_inv p (snd (a s)) = dialog_inv p s"
  by (rule dialog_inv_keeps_view) (rule keeps_wiring_dialog_view)

text \<open>Only two handlers touch the dialog: the reconnect click and \<open>onclose\<close>.\<close>

lemma dialog_inv_reconnect_click: "dialog_inv p s \<Longrightarrow> dialog_inv p (snd (reconnect_click s))"
  by (auto simp add: dialog_inv_def reconnect_click_def terminal_call_def connectWebSocket_def
      split: option.splits)

lemma dialog_inv_onclose: "dialog_inv p s \<Longrightarrow> dialog_inv p (snd (onclose s))"
  by (auto simp add: dialog_inv_def onclose_def showReconnectDialog_def terminal_call_def
      updateConnectionStatus_def console_log_def split: option.splits)

lemma dialog_inv_report [simp]: "dialog_inv p (report r) = dialog_inv p (snd r)"
  by (cases r) (simp add: report_def dialog_inv_def split: option.splits)

lemma keeps_wiring_listener_body:
  "\<not> (l = ReconnectClickListener \<and> ev = ReconnectButtonClick)
     \<Longrightarrow> keeps wiring (listener_body ev l)"
  by (cases l; cases ev)
     (simp_all add: listener_body_def keeps_view,
      simp_all add: keeps_def keepsD [OF keeps_view_theme_click])

lemma dialog_inv_listener_body:
  "dialog_inv p s \<Longrightarrow> dialog_inv p (snd (listener_body ev l s))"
proof (cases "l = ReconnectClickListener \<and> ev = ReconnectButtonClick")
  case True
  then show "dialog_inv p s \<Longrightarrow> ?thesis"
    by (simp add: listener_body_def dialog_inv_reconnect_click)
next
  case False
  then show "dialog_inv p s \<Longrightarrow> ?thesis"
    by (simp add: dialog_inv_keeps keeps_wiring_listener_body)
qed

lemma dialog_inv_dispatch: "dialog_inv p s \<Longrightarrow> dialog_inv p (dispatch ev ls s)"
  by (induction ls arbitrary: s) (simp_all add: dialog_inv_listener_body)

lemma dialog_inv_set_readyState [simp]: "dialog_inv p (set_readyState i r s) = dialog_inv p s"
  by (simp add: dialog_inv_def set_readyState_def)

lemma dialog_inv_timers [simp]: "dialog_inv p (s\<lparr>timers := ts\<rparr>) = dialog_inv p s"
  by (simp add: dialog_inv_def)

lemma dialog_inv_step: "dialog_inv p s \<Longrightarrow> dialog_inv p (step ev s)"
proof (cases ev)
  case (TransportOpen i)
  then show "dialog_inv p s \<Longrightarrow> ?thesis"
    by (simp add: dialog_inv_keeps keeps_view split: script.splits)
next
  case (TransportClose i)
  then show "dialog_inv p s \<Longrightarrow> ?thesis"
    by (simp add: dialog_inv_keeps keeps_view dialog_inv_onclose split: script.splits)
next
  case (TransportMessage i d)
  then show "dialog_inv p s \<Longrightarrow> ?thesis"
    by (simp add: dialog_inv_keeps keeps_view)
next
  case (TransportError i)
  then show "dialog_inv p s \<Longrightarrow> ?thesis"
    by (simp add: dialog_inv_keeps keeps_view)
next
  case (TimerFires k)
  then show "dialog_inv p s \<Longrightarrow> ?thesis"
    by (simp add: dialog_inv_keeps keeps_view)
qed (simp_all add: dialog_inv_dispatch split: option.splits)

lemma dialog_inv_run: "dialog_inv p s \<Longrightarrow> dialog_inv p (run evs s)"
  by (induction evs arbitrary: s) (simp_all add: dialog_inv_step)

text \<open>
  The invariant holds when \<open>init\<close> has ended, whether at its end or at an error:
  \<open>setupTerminal\<close> assigns the widget before anything in it can throw, and no step of
  \<open>init\<close> touches the dialog or its button.
\<close>

lemma dialog_inv_started: "dialog_inv p (started p outcome)"
proof -
  let ?s1 = "snd (fetchShellInfo outcome (DOMContentLoaded p))"
  let ?s2 = "snd (setupTerminal ?s1)"
  let ?rest = "[connectWebSocket, setupEventListeners, setupThemeController, updateConnectionStatus]"
  have "wiring ?s1 = wiring (DOMContentLoaded p)"
    by (rule keepsD [OF keeps_view_fetchShellInfo])
  then have m: "(reconnect_modal ?s1 = None) = (\<not> page_reconnect_modal p)"
      and b: "reconnect_btn ?s1 = element (page_reconnect_btn p)"
    by (simp_all add: wiring_def dialog_view_def DOMContentLoaded_def setTimeout_def
          constructor_def browser_def)
  have 2: "dialog_inv p ?s2"
    using m b
    by (cases "terminal_element ?s1")
       (auto simp add: dialog_inv_def setupTerminal_result setupTerminal_no_element element_def)
  show ?thesis
  proof (cases "terminal_element ?s1")
    case True
    have "keeps dialog_view (block ?rest)"
      by (rule keeps_block)
         (simp add: keeps_wiring_dialog_view keeps_view keeps_view_setupThemeController
            keeps_dialog_view_setupEventListeners)
    then have 3: "dialog_inv p (snd (block ?rest ?s2))"
      using 2 by (simp only: dialog_inv_keeps_view)
    have "init outcome (DOMContentLoaded p) = block ?rest ?s2"
      by (simp add: init_def block_ok fetchShellInfo_ok setupTerminal_result [OF True]
            del: block.simps(2))
    then show ?thesis
      using 3 by (simp add: started_def)
  next
    case False
    have "init outcome (DOMContentLoaded p) = (Some Error, ?s2)"
      by (simp add: init_def block_ok block_throw fetchShellInfo_ok
            setupTerminal_no_element [OF False] del: block.simps(2))
    then show ?thesis
      using 2 by (simp add: started_def)
  qed
qed

lemma reconnect_handlers_inv: "dialog_inv p s \<Longrightarrow> reconnect_handlers s \<le> 1"
  by (auto simp add: dialog_inv_def reconnect_handlers_def)

text \<open>
  A click constructs as many sockets as the button has listeners, unless the page has no
  dialog: then the listener throws at \<open>modal.close()\<close>.
\<close>

lemma reconnect_click_count:
  assumes "dialog_inv p s"
  shows "length (sockets (step ReconnectButtonClick s)) =
           length (sockets s) + (if page_reconnect_modal p then reconnect_handlers s else 0)"
proof -
  from assms obtain t where t: "terminal s = Some t"
    by (auto simp add: dialog_inv_def)
  from assms consider "reconnect_btn s = None" | "reconnect_btn s = Some []"
    | "reconnect_btn s = Some [ReconnectClickListener]"
    by (auto simp add: dialog_inv_def)
  then show ?thesis
  proof cases
    case 1
    then show ?thesis by (simp add: reconnect_handlers_def)
  next
    case 2
    then show ?thesis by (simp add: reconnect_handlers_def)
  next
    case 3
    show ?thesis
    proof (cases "reconnect_modal s")
      case None
      then have "\<not> page_reconnect_modal p"
        using assms by (simp add: dialog_inv_def)
      then show ?thesis
        using 3 None by (simp add: listener_body_def reconnect_click_def report_def)
    next
      case (Some b)
      then have "page_reconnect_modal p"
        using assms by (auto simp add: dialog_inv_def)
      then show ?thesis
        using 3
        by (simp add: listener_body_def reconnect_click_effect [OF t Some] reconnect_handlers_def)
    qed
  qed
qed

lemma showReconnectDialog_one_handler:
  "reconnect_btn s \<noteq> None \<Longrightarrow> reconnect_handlers (snd (showReconnectDialog s)) = 1"
  by (auto simp add: showReconnectDialog_def reconnect_handlers_def split: option.splits)

text \<open>
  Claim C9. On every page, however the request ended and whatever events follow in
  whatever order, the reconnect button of the page has at most one click listener, and
  a click on it constructs exactly as many sockets as it has listeners (none when the
  page has no dialog to close). Every presentation of the dialog leaves exactly one
  listener, whatever the button had before; so a click after the dialog was shown is
  one reconnect attempt.
\<close>

theorem one_reconnect_handler:
  "reconnect_handlers (run evs (started p outcome)) \<le> 1
   \<and> length (sockets (step ReconnectButtonClick (run evs (started p outcome))))
       = length (sockets (run evs (started p outcome)))
         + (if page_reconnect_modal p then reconnect_handlers (run evs (started p outcome)) else 0)
   \<and> (reconnect_btn s \<noteq> None \<longrightarrow> reconnect_handlers (snd (showReconnectDialog s)) = 1)"
proof -
  have "dialog_inv p (run evs (started p outcome))"
    by (intro dialog_inv_run dialog_inv_started)
  from reconnect_handlers_inv [OF this] reconnect_click_count [OF this]
  show ?thesis by (simp add: showReconnectDialog_one_handler)
qed

theorem one_reconnect_handler_witness:
  "reconnect_handlers (run [TransportClose 0, TransportClose 0] demo_state) = 1
   \<and> length (sockets (run [TransportClose 0, TransportClose 0] demo_state)) = 1
   \<and> length (sockets (step ReconnectButtonClick
         (run [TransportClose 0, TransportClose 0] demo_state))) = 2
   \<and> reconnect_btn demo_closed = Some [ReconnectClickListener]
   \<and> reconnect_handlers (snd (showReconnectDialog demo_closed)) = 1"
proof -
  have 1: "reconnect_btn (run [TransportClose 0, TransportClose 0] demo_state) =
          Some [ReconnectClickListener]"
    "length (sockets (run [TransportClose 0, TransportClose 0] demo_state)) = 1"
    by (simp_all add: demo_state_def demo_page_def start_defs new_Terminal_def
       set_readyState_def onclose_def showReconnectDialog_def)
  have 2: "reconnect_btn demo_closed = Some [ReconnectClickListener]"
    by (simp add: demo_closed_def demo_state_def demo_page_def start_defs new_Terminal_def
       set_readyState_def onopen_def onclose_def showReconnectDialog_def)
  from 1 2 show ?thesis
    using one_reconnect_handler
      [where evs = "[TransportClose 0, TransportClose 0]" and p = demo_page
         and outcome = FetchRejected and s = demo_closed]
    by (simp add: reconnect_handlers_def demo_state_def demo_page_def)
qed

section \<open>The interrupt key\<close>

text \<open>No event changes the \<open>keydown\<close> listeners of the document.\<close>

lemma keydown_listeners_report [simp]:
  "keydown_listeners (report r) = keydown_listeners (snd r)"
  by (cases r) (simp add: report_def split: option.splits)

lemma keeps_keydown_onclose: "keeps keydown_listeners onclose"
  unfolding onclose_def showReconnectDialog_def
  by (rule keeps_block)
     (simp add: keeps_def terminal_call_def updateConnectionStatus_def console_log_def
        keepsD [OF keeps_block] split: option.splits)

lemma keeps_keydown_reconnect_click: "keeps keydown_listeners reconnect_click"
  unfolding reconnect_click_def
  by (rule keeps_block)
     (simp add: keeps_def terminal_call_def connectWebSocket_def split: option.splits)

lemma keydown_listeners_listener_body:
  "keydown_listeners (snd (listener_body ev l s)) = keydown_listeners s"
proof (cases "l = ReconnectClickListener \<and> ev = ReconnectButtonClick")
  case True
  then show ?thesis
    by (simp add: listener_body_def keepsD [OF keeps_keydown_reconnect_click])
next
  case False
  then show ?thesis
    by (simp add: keepsD [OF keeps_wiring_keydown] keeps_wiring_listener_body)
qed

lemma keydown_listeners_dispatch:
  "keydown_listeners (dispatch ev ls s) = keydown_listeners s"
  by (induction ls arbitrary: s) (simp_all add: keydown_listeners_listener_body)

lemma keydown_listeners_set_readyState [simp]:
  "keydown_listeners (set_readyState i r s) = keydown_listeners s"
  by (simp add: set_readyState_def)

lemma keydown_listeners_step: "keydown_listeners (step ev s) = keydown_listeners s"
proof (cases ev)
  case (TransportOpen i)
  then show ?thesis
    by (simp add: keepsD [OF keeps_wiring_keydown] keeps_view split: script.splits)
next
  case (TransportClose i)
  then show ?thesis
    by (simp add: keepsD [OF keeps_wiring_keydown] keeps_view keepsD [OF keeps_keydown_onclose]
          split: script.splits)
next
  case (TransportMessage i d)
  then show ?thesis
    by (simp add: keepsD [OF keeps_wiring_keydown] keeps_view)
next
  case (TransportError i)
  then show ?thesis
    by (simp add: keepsD [OF keeps_wiring_keydown] keeps_view)
next
  case (TimerFires k)
  then show ?thesis
    by (simp add: keepsD [OF keeps_wiring_keydown] keeps_view)
qed (simp_all add: keydown_listeners_dispatch split: option.splits)

lemma keydown_listeners_run: "keydown_listeners (run evs s) = keydown_listeners s"
  by (induction evs arbitrary: s) (simp_all add: keydown_listeners_step)

text \<open>
  \<open>setupEventListeners\<close> registers the \<open>keydown\<close> listener last, after it has
  dereferenced the three window buttons.
\<close>

lemma setupEventListeners_keydown:
  assumes "close_button s \<noteq> None" and "minimize_button s \<noteq> None"
    and "maximize_button s \<noteq> None"
  shows "keydown_listeners (snd (setupEventListeners s)) = keydown_listeners s @ [KeydownListener]"
  using assms by (auto simp add: setupEventListeners_def addEventListener_def)

text \<open>
  On a page that has the element for the terminal and the three window buttons \<open>init\<close>
  runs to its end, whatever the request gave, and the document has the one listener.
\<close>

lemma keydown_listeners_started:
  assumes "page_terminal_element p" and "page_close_button p" and "page_minimize_button p"
    and "page_maximize_button p"
  shows "keydown_listeners (started p outcome) = [KeydownListener]"
proof -
  let ?s0 = "DOMContentLoaded p"
  let ?s1 = "snd (fetchShellInfo outcome ?s0)"
  let ?s3 = "snd (connectWebSocket (snd (setupTerminal ?s1)))"
  let ?s4 = "snd (setupEventListeners ?s3)"
  have "wiring ?s1 = wiring ?s0"
    by (rule keepsD [OF keeps_view_fetchShellInfo])
  then have w: "terminal_element ?s1" "close_button ?s1 = Some []" "minimize_button ?s1 = Some []"
    "maximize_button ?s1 = Some []" "keydown_listeners ?s1 = []"
    using assms
    by (simp_all add: wiring_def DOMContentLoaded_def setTimeout_def constructor_def browser_def
          element_def)
  have 3: "close_button ?s3 \<noteq> None" "minimize_button ?s3 \<noteq> None" "maximize_button ?s3 \<noteq> None"
    "keydown_listeners ?s3 = []"
    using w by (simp_all add: setupTerminal_result connectWebSocket_def)
  have 4: "keydown_listeners ?s4 = [KeydownListener]" "fst (setupEventListeners ?s3) = None"
    using 3 by (simp_all add: setupEventListeners_keydown setupEventListeners_ok)
  have k: "keeps wiring (block [setupThemeController, updateConnectionStatus])"
    by (rule keeps_block) (simp add: keeps_view keeps_view_setupThemeController)
  have i: "init outcome ?s0 = block [setupThemeController, updateConnectionStatus] ?s4"
    using 4(2) w(1)
    by (simp add: init_def block_ok fetchShellInfo_ok setupTerminal_result connectWebSocket_def
          del: block.simps(2))
  have "fst (block [setupThemeController, updateConnectionStatus] ?s4) = None"
    by (simp add: block_ok setupThemeController_ok updateConnectionStatus_ok del: block.simps(2))
  then obtain s5 where s5: "block [setupThemeController, updateConnectionStatus] ?s4 = (None, s5)"
    by (cases "block [setupThemeController, updateConnectionStatus] ?s4") simp
  have "keydown_listeners (snd (block [setupThemeController, updateConnectionStatus] ?s4))
      = [KeydownListener]"
    using keepsD [OF keeps_wiring_keydown [OF k], of ?s4] 4(1) by (simp del: block.simps)
  then have "keydown_listeners s5 = [KeydownListener]"
    unfolding s5 by simp
  then show ?thesis
    unfolding started_def i s5 by simp
qed

lemma step_Keydown_interrupt:
  assumes "keydown_listeners r = [KeydownListener]"
  shows "step (Keydown True ''c'') r =
      (if websocket_is_open r
       then websocket_send [CHR 0x03]
              (r\<lparr>default_prevented := default_prevented r @ [KeydownEvent True ''c'']\<rparr>)
       else r\<lparr>default_prevented := default_prevented r @ [KeydownEvent True ''c'']\<rparr>)"
  using assms
  by (auto simp add: listener_body_def keydown_listener_def preventDefault_def
        sendKeyboardInterrupt_def websocket_is_open_def split: option.splits)

text \<open>
  Claim C6. On an open socket \<open>sendKeyboardInterrupt\<close> sends one message, the string of
  the single character of code 3, and changes nothing else; otherwise it changes
  nothing. The \<open>keydown\<close> listener, for the control key with \<open>c\<close>, calls
  \<open>preventDefault\<close> on the event and then does what \<open>sendKeyboardInterrupt\<close> does.
  And the listener is there: on a page that has the element for the terminal and the
  three window buttons, whatever the request gave and whatever events came before, the
  document has exactly this one \<open>keydown\<close> listener, so that a \<open>keydown\<close> event of
  the control key with \<open>c\<close> has its default prevented and sends the one character when
  the current socket is open, and nothing when it is not.
\<close>

theorem interrupt_sends_one_byte_when_open:
  "(websocket_is_open s \<longrightarrow>
      (\<exists>i. websocket s = Some i \<and> i < length (sockets s) \<and>
         sendKeyboardInterrupt s =
           (None, s\<lparr>sockets := (sockets s)
              [i := (sockets s ! i)\<lparr>sent := sent (sockets s ! i) @ [[CHR 0x03]]\<rparr>]\<rparr>)))
   \<and> (\<not> websocket_is_open s \<longrightarrow> sendKeyboardInterrupt s = (None, s))
   \<and> of_char (CHR 0x03) = (3 :: nat)
   \<and> fst (keydown_listener True ''c'' s) = None
   \<and> default_prevented (snd (keydown_listener True ''c'' s)) =
       default_prevented s @ [KeydownEvent True ''c'']
   \<and> sockets (snd (keydown_listener True ''c'' s)) = sockets (snd (sendKeyboardInterrupt s))
   \<and> (page_terminal_element p \<and> page_close_button p \<and> page_minimize_button p
        \<and> page_maximize_button p \<longrightarrow>
        keydown_listeners (run evs (started p outcome)) = [KeydownListener]
        \<and> step (Keydown True ''c'') (run evs (started p outcome)) =
            (if websocket_is_open (run evs (started p outcome))
             then websocket_send [CHR 0x03]
                    ((run evs (started p outcome))
                       \<lparr>default_prevented := default_prevented (run evs (started p outcome))
                          @ [KeydownEvent True ''c'']\<rparr>)
             else (run evs (started p outcome))
                    \<lparr>default_prevented := default_prevented (run evs (started p outcome))
                       @ [KeydownEvent True ''c'']\<rparr>))"
proof -
  have a: "(websocket_is_open s \<longrightarrow>
      (\<exists>i. websocket s = Some i \<and> i < length (sockets s) \<and>
         sendKeyboardInterrupt s =
           (None, s\<lparr>sockets := (sockets s)
              [i := (sockets s ! i)\<lparr>sent := sent (sockets s ! i) @ [[CHR 0x03]]\<rparr>]\<rparr>)))
   \<and> (\<not> websocket_is_open s \<longrightarrow> sendKeyboardInterrupt s = (None, s))
   \<and> of_char (CHR 0x03) = (3 :: nat)
   \<and> fst (keydown_listener True ''c'' s) = None
   \<and> default_prevented (snd (keydown_listener True ''c'' s)) =
       default_prevented s @ [KeydownEvent True ''c'']
   \<and> sockets (snd (keydown_listener True ''c'' s)) = sockets (snd (sendKeyboardInterrupt s))"
    by (auto simp add: sendKeyboardInterrupt_def websocket_is_open_def websocket_send_def
        keydown_listener_def preventDefault_def split: option.splits)
  have b: "keydown_listeners (run evs (started p outcome)) = [KeydownListener]
        \<and> step (Keydown True ''c'') (run evs (started p outcome)) =
            (if websocket_is_open (run evs (started p outcome))
             then websocket_send [CHR 0x03]
                    ((run evs (started p outcome))
                       \<lparr>default_prevented := default_prevented (run evs (started p outcome))
                          @ [KeydownEvent True ''c'']\<rparr>)
             else (run evs (started p outcome))
                    \<lparr>default_prevented := default_prevented (run evs (started p outcome))
                       @ [KeydownEvent True ''c'']\<rparr>)"
    if "page_terminal_element p" "page_close_button p" "page_minimize_button p"
      "page_maximize_button p"
  proof -
    have "keydown_listeners (run evs (started p outcome)) = [KeydownListener]"
      using that by (simp add: keydown_listeners_run keydown_listeners_started)
    then show ?thesis
      using step_Keydown_interrupt by blast
  qed
  from a b show ?thesis
    by blast
qed

theorem interrupt_sends_one_byte_when_open_witness:
  "websocket_is_open demo_open
   \<and> map sent (sockets (snd (sendKeyboardInterrupt demo_open))) = [[[CHR 0x03]]]
   \<and> \<not> websocket_is_open demo_state
   \<and> sendKeyboardInterrupt demo_state = (None, demo_state)
   \<and> default_prevented (snd (keydown_listener True ''c'' demo_open)) =
       default_prevented demo_open @ [KeydownEvent True ''c'']
   \<and> map sent (sockets (snd (keydown_listener True ''c'' demo_open))) = [[[CHR 0x03]]]
   \<and> page_terminal_element demo_page \<and> page_close_button demo_page
   \<and> page_minimize_button demo_page \<and> page_maximize_button demo_page
   \<and> keydown_listeners (run [TransportOpen 0] demo_state) = [KeydownListener]
   \<and> map sent (sockets (step (Keydown True ''c'') (run [TransportOpen 0] demo_state))) =
       [[[CHR 0x03]]]
   \<and> default_prevented (step (Keydown True ''c'') (run [TransportOpen 0] demo_state)) =
       [KeydownEvent True ''c'']
   \<and> map sent (sockets (step (Keydown True ''c'') (run [] demo_state))) = [[]]
   \<and> default_prevented (step (Keydown True ''c'') (run [] demo_state)) =
       [KeydownEvent True ''c'']"
proof -
  have pg: "page_terminal_element demo_page \<and> page_close_button demo_page
      \<and> page_minimize_button demo_page \<and> page_maximize_button demo_page"
    by (simp add: demo_page_def)
  have r1: "run [TransportOpen 0] demo_state = demo_open" "run [] demo_state = demo_state"
    by (simp_all add: demo_open_def)
  have dp: "default_prevented demo_open = []" "default_prevented demo_state = []"
    by (simp_all add: demo_open_def demo_state_def demo_page_def start_defs new_Terminal_def
          set_readyState_def onopen_def)
  note o = interrupt_sends_one_byte_when_open
    [where s = demo_open and p = demo_page and outcome = FetchRejected
       and evs = "[TransportOpen 0]"]
  note c = interrupt_sends_one_byte_when_open
    [where s = demo_state and p = demo_page and outcome = FetchRejected and evs = "[]"]
  have 1: "map sent (sockets (snd (sendKeyboardInterrupt demo_open))) = [[[CHR 0x03]]]"
    "default_prevented (snd (keydown_listener True ''c'' demo_open)) =
       default_prevented demo_open @ [KeydownEvent True ''c'']"
    "map sent (sockets (snd (keydown_listener True ''c'' demo_open))) = [[[CHR 0x03]]]"
    using o [THEN conjunct1] o [THEN conjunct2, THEN conjunct2, THEN conjunct2]
    by (auto simp add: websocket_is_open_demo_open demo_open_sockets)
  have 2: "sendKeyboardInterrupt demo_state = (None, demo_state)"
    using c [THEN conjunct2, THEN conjunct1] by (simp add: websocket_is_open_demo_state)
  note o' = o [THEN conjunct2, THEN conjunct2, THEN conjunct2, THEN conjunct2,
      THEN conjunct2, THEN conjunct2, THEN mp, OF pg, folded demo_state_def, unfolded r1]
  note c' = c [THEN conjunct2, THEN conjunct2, THEN conjunct2, THEN conjunct2,
      THEN conjunct2, THEN conjunct2, THEN mp, OF pg, folded demo_state_def, unfolded r1]
  have 3: "keydown_listeners demo_open = [KeydownListener]"
    "map sent (sockets (step (Keydown True ''c'') demo_open)) = [[[CHR 0x03]]]"
    "default_prevented (step (Keydown True ''c'') demo_open) = [KeydownEvent True ''c'']"
    using o' [THEN conjunct1]
    by (simp_all add: o' [THEN conjunct2] websocket_is_open_demo_open websocket_send_def
          demo_open_sockets dp del: step.simps)
  have 4: "map sent (sockets (step (Keydown True ''c'') demo_state)) = [[]]"
    "default_prevented (step (Keydown True ''c'') demo_state) = [KeydownEvent True ''c'']"
    by (simp_all add: c' [THEN conjunct2] websocket_is_open_demo_state demo_state_sockets dp
          del: step.simps)
  from 1 2 3 4 pg show ?thesis
    unfolding r1
    by (simp add: websocket_is_open_demo_open websocket_is_open_demo_state del: step.simps)
qed

end
